theory Spec2Isabelle
  imports Main "HOL-Library.Char_ord" "HOL-Library.List_Lexorder" "HOL-Library.Sublist"
begin

section \<open>JavaScript strings\<close>

text \<open>
  Strings are lists of 8-bit characters (the code units below 256). Timestamps are ISO-8601
  strings and are compared as the store and JavaScript compare them: lexicographically, code
  unit by code unit (the order of \<^theory_text>\<open>List_Lexorder\<close> over \<^theory_text>\<open>Char_ord\<close>).
\<close>

definition isWhitespace :: "char \<Rightarrow> bool" where
  "isWhitespace c = (c \<in> set [CHR 0x09, CHR 0x0A, CHR 0x0B, CHR 0x0C, CHR 0x0D, CHR 0x20, CHR 0xA0])"

definition trimStart :: "string \<Rightarrow> string" where
  "trimStart s = dropWhile isWhitespace s"

definition trimEnd :: "string \<Rightarrow> string" where
  "trimEnd s = rev (dropWhile isWhitespace (rev s))"

definition trim :: "string \<Rightarrow> string" where
  "trim s = trimEnd (trimStart s)"

text \<open>Truthiness of an optional string: \<open>undefined\<close>, \<open>null\<close> and \<open>''\<close> are falsy.\<close>

fun truthy :: "string option \<Rightarrow> bool" where
  "truthy None = False"
| "truthy (Some s) = (s \<noteq> [])"

subsection \<open>The replacement \<open>raw.replace(/<internal>[\s\S]*?<\/internal>/g, '')\<close>\<close>

definition internalOpen :: string where
  "internalOpen = ''<internal>''"

definition internalClose :: string where
  "internalClose = ''</internal>''"

text \<open>\<open>afterFirst pat s\<close> is the text that follows the first occurrence of \<open>pat\<close> in \<open>s\<close>.\<close>

fun afterFirst :: "string \<Rightarrow> string \<Rightarrow> string option" where
  "afterFirst pat [] = (if pat = [] then Some [] else None)"
| "afterFirst pat (c # cs) =
     (if prefix pat (c # cs) then Some (drop (length pat) (c # cs)) else afterFirst pat cs)"

lemma afterFirst_length: "afterFirst pat s = Some r \<Longrightarrow> length r \<le> length s"
  by (induction s) (auto split: if_splits)

text \<open>
  The global replace scans from the left. At a position where the opening tag starts and a
  closing tag follows, the lazy quantifier ends the match at the nearest closing tag; the
  match is dropped and the scan goes on behind it. Elsewhere the character is kept.
\<close>

function stripInternal :: "string \<Rightarrow> string" where
  "stripInternal [] = []"
| "stripInternal (c # cs) =
     (if prefix internalOpen (c # cs) then
        (case afterFirst internalClose (drop (length internalOpen) (c # cs)) of
           Some rest \<Rightarrow> stripInternal rest
         | None \<Rightarrow> c # stripInternal cs)
      else c # stripInternal cs)"
  by pat_completeness auto
termination
proof (relation "measure length")
  show "wf (measure length)" by simp
next
  fix c :: char and cs rest :: string
  assume "afterFirst internalClose (drop (length internalOpen) (c # cs)) = Some rest"
  then have "length rest \<le> length (drop (length internalOpen) (c # cs))"
    by (rule afterFirst_length)
  then show "(rest, c # cs) \<in> measure length"
    by (simp add: internalOpen_def)
qed simp_all

section \<open>Data model\<close>

text \<open>\<open>NewMessage\<close>: a row of the messages table.\<close>

record new_message =
  msg_id :: string
  chat_jid :: string
  sender :: string
  sender_name :: string
  content :: string
  timestamp :: string

text \<open>\<open>AdditionalMount\<close>, \<open>ContainerConfig\<close> and \<open>RegisteredGroup\<close>; an optional field is an option.\<close>

record additional_mount =
  hostPath :: string
  containerPath :: string
  readonly :: "bool option"

record container_config =
  additionalMounts :: "additional_mount list option"
  timeout :: "nat option"
  cpus :: "nat option"
  ram :: "nat option"

record registered_group =
  name :: string
  folder :: string
  trigger :: string
  added_at :: string
  requiresTrigger :: "bool option"
  containerConfig :: "container_config option"

text \<open>\<open>ContainerInput\<close> and \<open>ContainerOutput\<close>. A \<open>null\<close> result is \<open>None\<close>.\<close>

record container_input =
  prompt :: string
  sessionId :: "string option"
  groupFolder :: string
  chatJid :: string
  isMain :: bool

datatype out_status = Success | Error

record container_output =
  status :: out_status
  result :: "string option"
  newSessionId :: "string option"
  error :: "string option"

section \<open>The router (src/index.ts, here src/unnamed/part_004)\<close>

text \<open>
  Every effect of the router on the store, the channel, the queue and the agent is recorded,
  in the order in which the code performs it. \<open>SaveState\<close> carries what \<open>saveState\<close> writes.
\<close>

datatype event =
    SaveState string "string \<rightharpoonup> string"
  | SetSession string string
  | SendMessage string string
  | SetTyping string bool
  | WriteTasksSnapshot string bool
  | WriteGroupsSnapshot string bool
  | RunAgent container_input
  | PipeToAgent string string
  | EnqueueMessageCheck string

text \<open>
  The module variables \<open>lastTimestamp\<close>, \<open>sessions\<close>, \<open>registeredGroups\<close> and
  \<open>lastAgentTimestamp\<close>, the rows of the store that the router writes (\<open>db_\<close>), the
  messages table, and the effects so far.
\<close>

record router_state =
  lastTimestamp :: string
  sessions :: "string \<rightharpoonup> string"
  registeredGroups :: "string \<rightharpoonup> registered_group"
  lastAgentTimestamp :: "string \<rightharpoonup> string"
  db_last_timestamp :: string
  db_last_agent_timestamp :: "string \<rightharpoonup> string"
  db_sessions :: "string \<rightharpoonup> string"
  db_messages :: "new_message list"
  events :: "event list"

text \<open>
  What index.ts imports from config.js and router.js, which are not part of the sources
  at hand: the constants, the test of the trigger regex and the prompt formatter.
\<close>

record config =
  ASSISTANT_NAME :: string
  MAIN_GROUP_FOLDER :: string
  REQUIRE_TRIGGER :: bool
  TRIGGER_PATTERN_test :: "string \<Rightarrow> bool"
  formatMessages :: "new_message list \<Rightarrow> string"

definition emit :: "event \<Rightarrow> router_state \<Rightarrow> router_state" where
  "emit e s = s\<lparr>events := events s @ [e]\<rparr>"

definition saveState :: "router_state \<Rightarrow> router_state" where
  "saveState s =
     emit (SaveState (lastTimestamp s) (lastAgentTimestamp s))
       (s\<lparr>db_last_timestamp := lastTimestamp s,
          db_last_agent_timestamp := lastAgentTimestamp s\<rparr>)"

text \<open>\<open>setSession(folder, id)\<close> of db.js: one row of the sessions table.\<close>

definition setSession :: "string \<Rightarrow> string \<Rightarrow> router_state \<Rightarrow> router_state" where
  "setSession f sid s = emit (SetSession f sid) (s\<lparr>db_sessions := (db_sessions s)(f \<mapsto> sid)\<rparr>)"

text \<open>The expression \<open>lastAgentTimestamp[chatJid] || ''\<close>.\<close>

definition cursorOf :: "router_state \<Rightarrow> string \<Rightarrow> string" where
  "cursorOf s jid = (case lastAgentTimestamp s jid of None \<Rightarrow> [] | Some t \<Rightarrow> t)"

text \<open>
  Modelled from the spec: \<open>getMessagesSince\<close> of db.js (not part of the sources at hand):
  the messages of one chat strictly after \<open>sinceTs\<close> whose sender name is not the
  assistant's, ordered by timestamp ascending.
\<close>

definition getMessagesSince :: "new_message list \<Rightarrow> string \<Rightarrow> string \<Rightarrow> string \<Rightarrow> new_message list" where
  "getMessagesSince db jid sinceTs selfName =
     sort_key timestamp
       (filter (\<lambda>m. chat_jid m = jid \<and> sinceTs < timestamp m \<and> sender_name m \<noteq> selfName) db)"

text \<open>
  Modelled from the spec: \<open>getNewMessages\<close> of db.js (not part of the sources at hand):
  the same filter over the registered chats, and the maximum timestamp of the batch, or
  \<open>sinceTs\<close> for an empty batch.
\<close>

definition getNewMessages :: "new_message list \<Rightarrow> (string \<Rightarrow> bool) \<Rightarrow> string \<Rightarrow> string \<Rightarrow> new_message list \<times> string" where
  "getNewMessages db isJid sinceTs selfName =
     (let msgs = sort_key timestamp
            (filter (\<lambda>m. isJid (chat_jid m) \<and> sinceTs < timestamp m \<and> sender_name m \<noteq> selfName) db)
      in (msgs, fold (\<lambda>m t. if t < timestamp m then timestamp m else t) msgs sinceTs))"

subsection \<open>The streaming callback of \<open>processGroupMessages\<close>\<close>

text \<open>
  The callback runs once per streamed frame. The idle timer it resets only closes the
  agent's stdin later; it touches none of the router's variables and is left out. The
  channel swallows a failed send, so \<open>sendMessage\<close> and \<open>setTyping\<close> return. A result is a
  string or \<open>null\<close>, as \<open>ContainerOutput\<close> declares it, so the \<open>JSON.stringify\<close> branch is
  not taken.
\<close>

definition onOutput :: "string \<Rightarrow> registered_group \<Rightarrow> container_output \<Rightarrow> router_state \<times> bool \<Rightarrow> router_state \<times> bool" where
  "onOutput jid g r sh =
     (let s = fst sh; hadError = snd sh;
          s1 = (if truthy (newSessionId r)
                then setSession (folder g) (the (newSessionId r))
                       (s\<lparr>sessions := (sessions s)(folder g \<mapsto> the (newSessionId r))\<rparr>)
                else s);
          s2 = (if truthy (result r)
                then (let raw = the (result r);
                          text = trim (stripInternal raw)
                      in if text \<noteq> [] then saveState (emit (SendMessage jid text) s1) else s1)
                else s1)
      in (s2, hadError \<or> status r = Error))"

subsection \<open>\<open>processGroupMessages\<close>\<close>

text \<open>
  \<open>runAgent\<close> belongs to container-runner.js, which is not part of the sources at hand. What
  the router sees of a run is the frames handed to the callback, in order, and then the
  promise settling: resolved with a final output, or rejected.
\<close>

datatype agent_end = Resolved container_output | Rejected string

type_synonym agent_run = "container_output list \<times> agent_end"

definition needsTrigger :: "config \<Rightarrow> registered_group \<Rightarrow> bool" where
  "needsTrigger cfg g =
     (folder g \<noteq> MAIN_GROUP_FOLDER cfg \<and> REQUIRE_TRIGGER cfg \<and> requiresTrigger g \<noteq> Some False)"

definition hasTrigger :: "config \<Rightarrow> new_message list \<Rightarrow> bool" where
  "hasTrigger cfg msgs = list_ex (\<lambda>m. TRIGGER_PATTERN_test cfg (trim (content m))) msgs"

text \<open>The end of the \<open>try\<close> block: the resolved output, or the \<open>catch\<close>.\<close>

definition afterAgent :: "registered_group \<Rightarrow> agent_end \<Rightarrow> router_state \<times> bool \<Rightarrow> router_state \<times> bool" where
  "afterAgent g e sh =
     (case e of
        Rejected err \<Rightarrow> (fst sh, True)
      | Resolved out \<Rightarrow>
          ((if truthy (newSessionId out)
            then setSession (folder g) (the (newSessionId out))
                   ((fst sh)\<lparr>sessions := (sessions (fst sh))(folder g \<mapsto> the (newSessionId out))\<rparr>)
            else fst sh),
           snd sh \<or> status out = Error))"

text \<open>
  The run proper, from \<open>formatMessages\<close> on: the cursor is advanced and saved, the agent
  runs with the streaming callback, and the cursor is rolled back when \<open>hadError\<close> is set.
\<close>

definition agentInput :: "config \<Rightarrow> string \<Rightarrow> registered_group \<Rightarrow> new_message list \<Rightarrow> router_state \<Rightarrow> container_input" where
  "agentInput cfg jid g missedMessages s =
     \<lparr>prompt = formatMessages cfg missedMessages, sessionId = sessions s (folder g),
      groupFolder = folder g, chatJid = jid, isMain = (folder g = MAIN_GROUP_FOLDER cfg)\<rparr>"

definition runGroup :: "config \<Rightarrow> (registered_group \<Rightarrow> container_input \<Rightarrow> agent_run) \<Rightarrow> string \<Rightarrow> registered_group \<Rightarrow> new_message list \<Rightarrow> router_state \<Rightarrow> bool \<times> router_state" where
  "runGroup cfg runAgent jid g missedMessages s =
     (let isMainGroup = (folder g = MAIN_GROUP_FOLDER cfg);
          previousCursor = cursorOf s jid;
          s1 = saveState
                 (s\<lparr>lastAgentTimestamp :=
                      (lastAgentTimestamp s)(jid \<mapsto> timestamp (last missedMessages))\<rparr>);
          s2 = emit (SetTyping jid True) s1;
          s3 = emit (WriteTasksSnapshot (folder g) isMainGroup) s2;
          s4 = emit (WriteGroupsSnapshot (folder g) isMainGroup) s3;
          inp = agentInput cfg jid g missedMessages s4;
          s5 = emit (RunAgent inp) s4;
          run = runAgent g inp;
          sh6 = fold (onOutput jid g) (fst run) (s5, False);
          sh7 = afterAgent g (snd run) sh6;
          s8 = emit (SetTyping jid False) (fst sh7)
      in if snd sh7
         then (False,
               saveState (s8\<lparr>lastAgentTimestamp := (lastAgentTimestamp s8)(jid \<mapsto> previousCursor)\<rparr>))
         else (True, s8))"


definition processGroupMessages :: "config \<Rightarrow> (registered_group \<Rightarrow> container_input \<Rightarrow> agent_run) \<Rightarrow> string \<Rightarrow> router_state \<Rightarrow> bool \<times> router_state" where
  "processGroupMessages cfg runAgent jid s =
     (case registeredGroups s jid of
        None \<Rightarrow> (True, s)
      | Some g \<Rightarrow>
          (let sinceTimestamp = cursorOf s jid;
               missedMessages = getMessagesSince (db_messages s) jid sinceTimestamp (ASSISTANT_NAME cfg)
           in if missedMessages = [] then (True, s)
              else if needsTrigger cfg g \<and> \<not> hasTrigger cfg missedMessages then (True, s)
              else runGroup cfg runAgent jid g missedMessages s))"

text \<open>The run ends in a terminal error: an error frame, an error output, or a rejection.\<close>

definition terminalError :: "agent_run \<Rightarrow> bool" where
  "terminalError run =
     (list_ex (\<lambda>f. status f = Error) (fst run) \<or>
      (case snd run of Rejected err \<Rightarrow> True | Resolved out \<Rightarrow> status out = Error))"

subsection \<open>One pass of \<open>startMessageLoop\<close>\<close>

text \<open>
  \<open>queue.sendMessage\<close> belongs to group-queue.js, which is not part of the sources at hand:
  it pipes the text into a live agent and returns true, returns false when there is none,
  or throws.
\<close>

datatype pipe_outcome = Piped | NoActiveContainer | PipeThrows

text \<open>The \<open>Map\<close> keyed by chat, in insertion order.\<close>

definition addToGroup :: "new_message \<Rightarrow> (string \<times> new_message list) list \<Rightarrow> (string \<times> new_message list) list" where
  "addToGroup m acc =
     (case map_of acc (chat_jid m) of
        Some existing \<Rightarrow> map (\<lambda>kv. if fst kv = chat_jid m then (fst kv, snd kv @ [m]) else kv) acc
      | None \<Rightarrow> acc @ [(chat_jid m, [m])])"

definition groupByChat :: "new_message list \<Rightarrow> (string \<times> new_message list) list" where
  "groupByChat msgs = fold addToGroup msgs []"

text \<open>
  The body of the inner \<open>for\<close> loop for one chat. The second component says that the step
  threw; the assignments made before the throw stay.
\<close>

definition loopGroupStep :: "config \<Rightarrow> (string \<Rightarrow> string \<Rightarrow> pipe_outcome) \<Rightarrow> string \<times> new_message list \<Rightarrow> router_state \<Rightarrow> router_state \<times> bool" where
  "loopGroupStep cfg queue_sendMessage kv s =
     (let jid = fst kv; groupMessages = snd kv
      in case registeredGroups s jid of
           None \<Rightarrow> (s, False)
         | Some g \<Rightarrow>
             if needsTrigger cfg g \<and> \<not> hasTrigger cfg groupMessages then (s, False)
             else
               (let allPending = getMessagesSince (db_messages s) jid (cursorOf s jid) (ASSISTANT_NAME cfg);
                    messagesToSend = (if allPending \<noteq> [] then allPending else groupMessages);
                    formatted = formatMessages cfg messagesToSend
                in case queue_sendMessage jid formatted of
                     Piped \<Rightarrow>
                       (saveState
                          ((emit (PipeToAgent jid formatted) s)
                             \<lparr>lastAgentTimestamp :=
                                (lastAgentTimestamp s)(jid \<mapsto> timestamp (last messagesToSend))\<rparr>),
                        False)
                   | NoActiveContainer \<Rightarrow> (emit (EnqueueMessageCheck jid) s, False)
                   | PipeThrows \<Rightarrow> (s, True)))"

fun forEachGroup :: "config \<Rightarrow> (string \<Rightarrow> string \<Rightarrow> pipe_outcome) \<Rightarrow> (string \<times> new_message list) list \<Rightarrow> router_state \<Rightarrow> router_state \<times> bool" where
  "forEachGroup cfg q [] s = (s, False)"
| "forEachGroup cfg q (kv # kvs) s =
     (case loopGroupStep cfg q kv s of
        (s', True) \<Rightarrow> (s', True)
      | (s', False) \<Rightarrow> forEachGroup cfg q kvs s')"

text \<open>
  The \<open>try\<close> block of one pass; the \<open>catch\<close> only logs. The result is the state after the
  pass and whether the pass threw.
\<close>

definition messageLoopTick :: "config \<Rightarrow> (string \<Rightarrow> string \<Rightarrow> pipe_outcome) \<Rightarrow> router_state \<Rightarrow> router_state \<times> bool" where
  "messageLoopTick cfg q s =
     (let got = getNewMessages (db_messages s) (\<lambda>j. registeredGroups s j \<noteq> None)
                  (lastTimestamp s) (ASSISTANT_NAME cfg);
          messages = fst got; newTimestamp = snd got
      in if messages \<noteq> []
         then forEachGroup cfg q (groupByChat messages)
                (saveState (s\<lparr>lastTimestamp := newTimestamp\<rparr>))
         else (s, False))"

section \<open>The OpenCode runner (src/opencode-runner.ts, here src/unnamed/part_005)\<close>

subsection \<open>Parsed JSON and the JavaScript operations on it\<close>

datatype json =
    JNull
  | JBool bool
  | JNum int
  | JStr string
  | JArr "json list"
  | JObj "(string \<times> json) list"

text \<open>
  \<open>JSON.parse\<close> (\<open>None\<close> when it throws) and the string conversion of a value that is not
  a string are the language's own; they are parameters of the model. Numbers are integers.
\<close>

record js_env =
  JSON_parse :: "string \<Rightarrow> json option"
  String_of :: "json \<Rightarrow> string"

text \<open>Property access \<open>v.k\<close> on a value that is not \<open>null\<close>; \<open>None\<close> is \<open>undefined\<close>.\<close>

fun getProp :: "json \<Rightarrow> string \<Rightarrow> json option" where
  "getProp (JObj kvs) k = map_of (rev kvs) k"
| "getProp v k = None"

fun truthyJson :: "json option \<Rightarrow> bool" where
  "truthyJson None = False"
| "truthyJson (Some JNull) = False"
| "truthyJson (Some (JBool b)) = b"
| "truthyJson (Some (JNum n)) = (n \<noteq> 0)"
| "truthyJson (Some (JStr s)) = (s \<noteq> [])"
| "truthyJson (Some (JArr xs)) = True"
| "truthyJson (Some (JObj kvs)) = True"

fun toStr :: "js_env \<Rightarrow> json \<Rightarrow> string" where
  "toStr js (JStr s) = s"
| "toStr js v = String_of js v"

text \<open>An element of \<open>Array.prototype.join\<close>: \<open>undefined\<close> and \<open>null\<close> give the empty string.\<close>

fun joinElem :: "js_env \<Rightarrow> json option \<Rightarrow> string" where
  "joinElem js None = []"
| "joinElem js (Some JNull) = []"
| "joinElem js (Some v) = toStr js v"

fun joinWith :: "string \<Rightarrow> string list \<Rightarrow> string" where
  "joinWith sep [] = []"
| "joinWith sep [x] = x"
| "joinWith sep (x # y # ys) = x @ sep @ joinWith sep (y # ys)"

text \<open>\<open>s.split(d)\<close> for a one-character separator, \<open>s.includes(pat)\<close> and \<open>s.slice(-n)\<close>.\<close>

fun splitOn :: "char \<Rightarrow> string \<Rightarrow> string list" where
  "splitOn d [] = [[]]"
| "splitOn d (c # cs) =
     (if c = d then [] # splitOn d cs
      else (case splitOn d cs of [] \<Rightarrow> [[c]] | l # ls \<Rightarrow> (c # l) # ls))"

fun includesStr :: "string \<Rightarrow> string \<Rightarrow> bool" where
  "includesStr [] pat = (pat = [])"
| "includesStr (c # cs) pat = (prefix pat (c # cs) \<or> includesStr cs pat)"

definition sliceLast :: "nat \<Rightarrow> string \<Rightarrow> string" where
  "sliceLast n s = drop (length s - n) s"

text \<open>Decimal rendering of an integer in a template literal.\<close>

fun showNat :: "nat \<Rightarrow> string" where
  "showNat n = (if n < 10 then [''0123456789'' ! n] else showNat (n div 10) @ [''0123456789'' ! (n mod 10)])"

declare showNat.simps [simp del]

definition showInt :: "int \<Rightarrow> string" where
  "showInt i = (if i < 0 then CHR ''-'' # showNat (nat (- i)) else showNat (nat i))"

subsection \<open>\<open>extractOpenCodeResponse\<close>\<close>

text \<open>\<open>l.replace(/\r$/, '')\<close>: one trailing carriage return is dropped.\<close>

definition dropTrailingCR :: "string \<Rightarrow> string" where
  "dropTrailingCR l = (if l \<noteq> [] \<and> last l = CHR 0x0D then butlast l else l)"

text \<open>
  The array branch: \<open>content.filter(c => c.type === 'text').map(c => c.text)\<close>. Reading
  \<open>c.type\<close> of a \<open>null\<close> element throws; the result is then \<open>None\<close>.
\<close>

fun textParts :: "json list \<Rightarrow> json option list option" where
  "textParts [] = Some []"
| "textParts (JNull # cs) = None"
| "textParts (c # cs) =
     (case textParts cs of
        None \<Rightarrow> None
      | Some ps \<Rightarrow> Some (if getProp c ''type'' = Some (JStr ''text'') then getProp c ''text'' # ps else ps))"

text \<open>The body of the \<open>try\<close> for one parsed line; a throw leaves \<open>result\<close> as it was.\<close>

definition extractStep :: "js_env \<Rightarrow> json \<Rightarrow> string \<Rightarrow> string" where
  "extractStep js j res =
     (if j = JNull then res
      else
        (let r1 =
               (if getProp j ''type'' = Some (JStr ''text'') then
                  (if truthyJson (getProp j ''text'') then res @ toStr js (the (getProp j ''text''))
                   else if truthyJson (getProp j ''part'') \<and> truthyJson (getProp (the (getProp j ''part'')) ''text'')
                        then res @ toStr js (the (getProp (the (getProp j ''part'')) ''text''))
                        else res)
                else res)
         in if getProp j ''type'' = Some (JStr ''message'') \<and> getProp j ''role'' = Some (JStr ''assistant'')
               \<and> truthyJson (getProp j ''content'')
            then (case the (getProp j ''content'') of
                    JStr s \<Rightarrow> s
                  | JArr cs \<Rightarrow>
                      (case textParts cs of
                         None \<Rightarrow> r1
                       | Some ps \<Rightarrow> if ps \<noteq> [] then joinWith [CHR 0x0A] (map (joinElem js) ps) else r1)
                  | _ \<Rightarrow> r1)
            else r1))"

fun extractLoop :: "js_env \<Rightarrow> string list \<Rightarrow> string \<Rightarrow> string" where
  "extractLoop js [] res = res"
| "extractLoop js (line # ls) res =
     (if trim line = [] then extractLoop js ls res
      else (case JSON_parse js line of
              None \<Rightarrow> extractLoop js ls res
            | Some j \<Rightarrow> extractLoop js ls (extractStep js j res)))"

text \<open>The fallback loop, from the last line backwards; the argument is the reversed list.\<close>

fun lastPlainLine :: "string list \<Rightarrow> string" where
  "lastPlainLine [] = []"
| "lastPlainLine (line # ls) =
     (let l = trim line
      in if l = [] then lastPlainLine ls
         else if includesStr l ''tokens used'' \<or> includesStr l ''session:'' \<or> prefix ''http://'' l
              then lastPlainLine ls
              else l)"

definition extractOpenCodeResponse :: "js_env \<Rightarrow> string \<Rightarrow> string" where
  "extractOpenCodeResponse js rawStdout =
     (let lines = map trimEnd (map dropTrailingCR (splitOn (CHR 0x0A) rawStdout));
          res = extractLoop js lines []
      in if res \<noteq> [] then res else lastPlainLine (rev lines))"

subsection \<open>\<open>runOpenCodeAgent\<close>\<close>

datatype signal = SIGTERM | SIGKILL

text \<open>
  What happens to the child after the spawn, in the order in which Node delivers it: data
  on stdout or stderr, the wall-clock timer, a 100 ms timer set on a \<open>step_finish\<close>, the
  \<open>close\<close> event with the exit code (\<open>None\<close> is \<open>null\<close>), the \<open>error\<close> event.
\<close>

datatype proc_event =
    StdoutData string
  | StderrData string
  | TimeoutFires
  | KillTimerFires
  | Close "int option"
  | SpawnError string

text \<open>
  The variables of the promise body; \<open>timerSet\<close> says that the wall-clock timer is still
  pending, \<open>killTimers\<close> counts the pending 100 ms timers, \<open>signals\<close> lists the signals sent,
  \<open>resolved\<close> is what the promise resolved to (the first \<open>resolve\<close> wins).
\<close>

record oc_state =
  stdout :: string
  stderr :: string
  stdoutTruncated :: bool
  stderrTruncated :: bool
  capturedSessionId :: "string option"
  timerSet :: bool
  killTimers :: nat
  signals :: "signal list"
  resolved :: "container_output option"

definition resolve :: "container_output \<Rightarrow> oc_state \<Rightarrow> oc_state" where
  "resolve out st = (case resolved st of None \<Rightarrow> st\<lparr>resolved := Some out\<rparr> | Some r \<Rightarrow> st)"

definition errorOutput :: "string \<Rightarrow> container_output" where
  "errorOutput msg = \<lparr>status = Error, result = None, newSessionId = None, error = Some msg\<rparr>"

text \<open>\<open>opts?.timeoutMs ?? group.containerConfig?.timeout ?? CONTAINER_TIMEOUT\<close>.\<close>

definition timeoutMs :: "nat \<Rightarrow> registered_group \<Rightarrow> nat option \<Rightarrow> nat" where
  "timeoutMs CONTAINER_TIMEOUT g opts =
     (case opts of
        Some t \<Rightarrow> t
      | None \<Rightarrow>
          (case containerConfig g of
             None \<Rightarrow> CONTAINER_TIMEOUT
           | Some c \<Rightarrow> (case timeout c of Some t \<Rightarrow> t | None \<Rightarrow> CONTAINER_TIMEOUT)))"

text \<open>The body of the \<open>try\<close> for one line of a stdout chunk.\<close>

definition scanLine :: "js_env \<Rightarrow> string \<Rightarrow> oc_state \<Rightarrow> oc_state" where
  "scanLine js line st =
     (if trim line = [] then st
      else case JSON_parse js line of
             None \<Rightarrow> st
           | Some JNull \<Rightarrow> st
           | Some j \<Rightarrow>
               (let st1 = (if getProp j ''type'' = Some (JStr ''session'') \<and> truthyJson (getProp j ''id'')
                           then st\<lparr>capturedSessionId := Some (toStr js (the (getProp j ''id'')))\<rparr>
                           else st);
                    reason = (case getProp j ''part'' of
                                None \<Rightarrow> None
                              | Some JNull \<Rightarrow> None
                              | Some p \<Rightarrow> getProp p ''reason'')
                in if getProp j ''type'' = Some (JStr ''step_finish'')
                      \<and> (reason = Some (JStr ''stop'') \<or> reason = Some (JStr ''error''))
                   then st1\<lparr>killTimers := Suc (killTimers st1)\<rparr>
                   else st1))"

definition onStdout :: "js_env \<Rightarrow> nat \<Rightarrow> string \<Rightarrow> oc_state \<Rightarrow> oc_state" where
  "onStdout js CONTAINER_MAX_OUTPUT_SIZE chunk st =
     (if stdoutTruncated st then st
      else
        (let st1 = fold (scanLine js) (splitOn (CHR 0x0A) chunk) st;
             remaining = CONTAINER_MAX_OUTPUT_SIZE - length (stdout st1)
         in if length chunk > remaining
            then st1\<lparr>stdout := stdout st1 @ take remaining chunk, stdoutTruncated := True\<rparr>
            else st1\<lparr>stdout := stdout st1 @ chunk\<rparr>))"

definition onStderr :: "nat \<Rightarrow> string \<Rightarrow> oc_state \<Rightarrow> oc_state" where
  "onStderr CONTAINER_MAX_OUTPUT_SIZE chunk st =
     (if stderrTruncated st then st
      else
        (let remaining = CONTAINER_MAX_OUTPUT_SIZE - length (stderr st)
         in if length chunk > remaining
            then st\<lparr>stderr := stderr st @ take remaining chunk, stderrTruncated := True\<rparr>
            else st\<lparr>stderr := stderr st @ chunk\<rparr>))"

definition onTimeout :: "nat \<Rightarrow> oc_state \<Rightarrow> oc_state" where
  "onTimeout tmo st =
     (if timerSet st
      then resolve (errorOutput (''OpenCode timed out after '' @ showNat tmo @ ''ms''))
             (st\<lparr>timerSet := False, signals := signals st @ [SIGKILL]\<rparr>)
      else st)"

definition onKillTimer :: "oc_state \<Rightarrow> oc_state" where
  "onKillTimer st =
     (if killTimers st > 0
      then st\<lparr>killTimers := killTimers st - 1, signals := signals st @ [SIGTERM]\<rparr>
      else st)"

definition onClose :: "js_env \<Rightarrow> int option \<Rightarrow> oc_state \<Rightarrow> oc_state" where
  "onClose js code st0 =
     (let st = st0\<lparr>timerSet := False\<rparr>
      in if code \<noteq> Some 0 \<and> code \<noteq> None
         then resolve (errorOutput (''OpenCode exited with code '' @ showInt (the code)
                  @ ''. Stdout: '' @ sliceLast 500 (trim (stdout st))
                  @ ''. Stderr: '' @ sliceLast 500 (trim (stderr st)))) st
         else
           (let text = extractOpenCodeResponse js (stdout st)
            in if text = []
               then resolve (errorOutput (''OpenCode returned empty output. Stderr: ''
                        @ sliceLast 500 (trim (stderr st)))) st
               else resolve \<lparr>status = Success, result = Some text,
                             newSessionId = capturedSessionId st, error = None\<rparr> st))"

definition onError :: "string \<Rightarrow> oc_state \<Rightarrow> oc_state" where
  "onError msg st = resolve (errorOutput (''Failed to spawn opencode: '' @ msg)) (st\<lparr>timerSet := False\<rparr>)"

fun handle :: "js_env \<Rightarrow> nat \<Rightarrow> nat \<Rightarrow> proc_event \<Rightarrow> oc_state \<Rightarrow> oc_state" where
  "handle js maxOut tmo (StdoutData chunk) st = onStdout js maxOut chunk st"
| "handle js maxOut tmo (StderrData chunk) st = onStderr maxOut chunk st"
| "handle js maxOut tmo TimeoutFires st = onTimeout tmo st"
| "handle js maxOut tmo KillTimerFires st = onKillTimer st"
| "handle js maxOut tmo (Close code) st = onClose js code st"
| "handle js maxOut tmo (SpawnError msg) st = onError msg st"

definition spawned :: oc_state where
  "spawned = \<lparr>stdout = [], stderr = [], stdoutTruncated = False, stderrTruncated = False,
               capturedSessionId = None, timerSet = True, killTimers = 0, signals = [],
               resolved = None\<rparr>"

text \<open>
  \<open>CONTAINER_MAX_OUTPUT_SIZE\<close> and \<open>CONTAINER_TIMEOUT\<close> come from config.js, which is not part
  of the sources at hand. The arguments of the spawn play no part in the handlers.
\<close>

definition runOpenCodeAgent :: "js_env \<Rightarrow> nat \<Rightarrow> nat \<Rightarrow> registered_group \<Rightarrow> nat option \<Rightarrow> proc_event list \<Rightarrow> oc_state" where
  "runOpenCodeAgent js CONTAINER_MAX_OUTPUT_SIZE CONTAINER_TIMEOUT g opts evs =
     fold (handle js CONTAINER_MAX_OUTPUT_SIZE (timeoutMs CONTAINER_TIMEOUT g opts)) evs spawned"

text \<open>The events that settle the promise: the timer, the \<open>close\<close> event, the \<open>error\<close> event.\<close>

definition settles :: "proc_event \<Rightarrow> bool" where
  "settles e = (case e of TimeoutFires \<Rightarrow> True | Close c \<Rightarrow> True | SpawnError m \<Rightarrow> True | _ \<Rightarrow> False)"

text \<open>What the promise may hold: nothing yet, an error, or a success with a non-empty text.\<close>

definition wellResolved :: "oc_state \<Rightarrow> bool" where
  "wellResolved st =
     (case resolved st of None \<Rightarrow> True | Some out \<Rightarrow> status out = Error \<or> truthy (result out))"

text \<open>The \<open>close\<close> event, and a promise that holds no success.\<close>

definition isClose :: "proc_event \<Rightarrow> bool" where
  "isClose e = (case e of Close c \<Rightarrow> True | _ \<Rightarrow> False)"

definition notSucceeded :: "oc_state \<Rightarrow> bool" where
  "notSucceeded st = (case resolved st of None \<Rightarrow> True | Some out \<Rightarrow> status out = Error)"

section \<open>The Vibe runner (src/vibe-runner.ts, src/vibe-helper.ts)\<close>

text \<open>An element of the \<open>mounts\<close> array that \<open>runVibeAgent\<close> hands to \<open>executeVibe\<close>.\<close>

record vibe_mount =
  mount_hostPath :: string
  mount_guestPath :: string
  mount_readonly :: bool

text \<open>
  Step 4 of \<open>runVibeAgent\<close>. The three directories are the results of \<open>path.join\<close> over
  \<open>GROUPS_DIR\<close>, \<open>DATA_DIR\<close> and the group's folder; \<open>sessionsDirExists\<close> is \<open>fs.existsSync\<close>.
\<close>

definition vibeMounts :: "string \<Rightarrow> string \<Rightarrow> string \<Rightarrow> bool \<Rightarrow> registered_group \<Rightarrow> vibe_mount list" where
  "vibeMounts groupDir groupIpcDir groupSessionsDir sessionsDirExists g =
     [\<lparr>mount_hostPath = groupDir, mount_guestPath = ''/workspace'', mount_readonly = False\<rparr>,
      \<lparr>mount_hostPath = groupIpcDir, mount_guestPath = ''/ipc'', mount_readonly = False\<rparr>]
     @ (if sessionsDirExists
        then [\<lparr>mount_hostPath = groupSessionsDir, mount_guestPath = ''/home/user/.claude'',
               mount_readonly = False\<rparr>]
        else [])
     @ (case containerConfig g of
          None \<Rightarrow> []
        | Some c \<Rightarrow>
            (case additionalMounts c of
               None \<Rightarrow> []
             | Some ms \<Rightarrow>
                 map (\<lambda>m. \<lparr>mount_hostPath = hostPath m, mount_guestPath = containerPath m,
                            mount_readonly = (case readonly m of Some b \<Rightarrow> b | None \<Rightarrow> False)\<rparr>) ms))"

text \<open>The \<open>--mount\<close> arguments that \<open>executeVibe\<close> builds for the \<open>vibe\<close> command.\<close>

definition mountArg :: "vibe_mount \<Rightarrow> string list" where
  "mountArg m =
     [''--mount'',
      mount_hostPath m @ '':'' @ mount_guestPath m
        @ (if mount_readonly m then '':read-only'' else '':read-write'')]"

text \<open>\<open>getVibeConfig\<close>, with the defaults \<open>VIBE_CPUS\<close> and \<open>VIBE_RAM\<close> read from the environment.\<close>

definition orDefault :: "nat option \<Rightarrow> nat \<Rightarrow> nat" where
  "orDefault v d = (case v of None \<Rightarrow> d | Some n \<Rightarrow> if n = 0 then d else n)"

definition executeVibeArgs :: "nat \<Rightarrow> nat \<Rightarrow> vibe_mount list \<Rightarrow> string \<Rightarrow> string \<Rightarrow> string list" where
  "executeVibeArgs cpusN ramN mounts script imagePath =
     (if cpusN \<noteq> 0 then [''--cpus'', showNat cpusN] else [])
     @ (if ramN \<noteq> 0 then [''--ram'', showNat ramN] else [])
     @ concat (map mountArg mounts)
     @ (if script \<noteq> [] then [''--script'', script] else [])
     @ [imagePath]"

text \<open>The arguments of the \<open>vibe\<close> command that a run of \<open>runVibeAgent\<close> spawns.\<close>

definition runVibeAgentArgs :: "nat \<Rightarrow> nat \<Rightarrow> string \<Rightarrow> string \<Rightarrow> string \<Rightarrow> bool \<Rightarrow> string \<Rightarrow> string \<Rightarrow> registered_group \<Rightarrow> string list" where
  "runVibeAgentArgs VIBE_CPUS VIBE_RAM groupDir groupIpcDir groupSessionsDir sessionsDirExists
       scriptPath imagePath g =
     executeVibeArgs
       (orDefault (case containerConfig g of None \<Rightarrow> None | Some c \<Rightarrow> cpus c) VIBE_CPUS)
       (orDefault (case containerConfig g of None \<Rightarrow> None | Some c \<Rightarrow> ram c) VIBE_RAM)
       (vibeMounts groupDir groupIpcDir groupSessionsDir sessionsDirExists g)
       scriptPath imagePath"

text \<open>The allowlist file: allowed roots, blocked patterns, and \<open>nonMainReadOnly\<close>.\<close>

record allowed_root =
  root_path :: "string list"
  allowReadWrite :: bool

record mount_allowlist =
  allowedRoots :: "allowed_root list"
  blockedPatterns :: "string list"
  nonMainReadOnly :: bool

definition pathComponents :: "string \<Rightarrow> string list" where
  "pathComponents p = filter (\<lambda>c. c \<noteq> []) (splitOn (CHR ''/'') p)"

text \<open>
  Modelled from the spec: what the mount policy lets into a run (mount-security.ts is not
  part of the sources at hand). A mount, as handed to the engine, complies when no component
  of its resolved host path matches a blocked pattern (here: a pattern without wildcards,
  matched by an equal component), the path lies under an allowed root, and the mount is
  read-only wherever the policy forces that: for a workspace that is not the main one when
  \<open>nonMainReadOnly\<close> is set, and under a root that does not allow writing.
\<close>

definition compliesWithPolicy :: "mount_allowlist \<Rightarrow> bool \<Rightarrow> vibe_mount \<Rightarrow> bool" where
  "compliesWithPolicy al isMainGroup m =
     (let comps = pathComponents (mount_hostPath m)
      in \<not> list_ex (\<lambda>c. c \<in> set (blockedPatterns al)) comps
         \<and> list_ex (\<lambda>r. prefix (root_path r) comps
                        \<and> (mount_readonly m \<or> (allowReadWrite r \<and> (isMainGroup \<or> \<not> nonMainReadOnly al))))
              (allowedRoots al))"

section \<open>The Tart runner (src/tart-runner.ts, src/tart-ssh-helper.ts)\<close>

text \<open>
  The commands that \<open>runTartAgent\<close> runs, in order. \<open>TartIp\<close> and \<open>SshProbe\<close> stand for
  the polling loops \<open>waitForVMIP\<close> and \<open>waitForSSH\<close>; \<open>TarConfigs\<close>, \<open>ScpUpload\<close>,
  \<open>SshUntar\<close> and \<open>UnlinkTar\<close> are the steps of \<open>uploadConfigs\<close>; \<open>SshExportEnv\<close> carries
  the lines that \<open>exportEnvVars\<close> appends to \<open>~/.zshenv\<close>.
\<close>

datatype tart_cmd =
    TartList
  | TartClone string string
  | TartRun string
  | TartIp string
  | SshProbe
  | SshSymlink
  | TarConfigs "string list"
  | ScpUpload
  | SshUntar
  | UnlinkTar
  | SshExportEnv "string list"
  | ExecuteAgent
  | TartStop string
  | TartDelete string

text \<open>
  What \<open>executeSSH\<close> gives for a command: the promise resolves with \<open>exitCode\<close> (which is
  \<open>code || 0\<close>), \<open>stdout\<close> and \<open>stderr\<close>, whatever the exit code is; or it rejects, on its
  timeout or when the process cannot be spawned, with a message.
\<close>

datatype ssh_outcome = SshResult int string string | SshRejected string

text \<open>
  How the host answers: the output of \<open>tart list\<close> (\<open>None\<close> when the command fails), whether
  \<open>tart clone\<close> and \<open>tart run\<close> succeed, the address that \<open>waitForVMIP\<close> ends with (\<open>None\<close>
  when it gives up), whether \<open>waitForSSH\<close> gets through, the outcome of each command run
  over SSH, which of the four configuration files exist, whether the local \<open>tar\<close> succeeds,
  the message with which \<open>uploadViaSCP\<close> rejects (\<open>None\<close> when it resolves), the process
  environment, what \<open>extractSessionId\<close> finds in the output of the opencode CLI, whether
  \<open>tart stop\<close> and \<open>tart delete\<close> succeed, and the message of the error that a failing
  \<open>execSync\<close> raises.
\<close>

record tart_host =
  listOutput :: "string option"
  cloneOk :: bool
  runOk :: bool
  vmIP :: "string option"
  sshReady :: bool
  symlinkSsh :: ssh_outcome
  configFiles :: "string list"
  tarOk :: bool
  scpFailure :: "string option"
  untarSsh :: ssh_outcome
  processEnv :: "(string \<times> string) list"
  exportSsh :: ssh_outcome
  agentSsh :: ssh_outcome
  agentSessionId :: "string option"
  stopOk :: bool
  deleteOk :: bool
  failureText :: string

text \<open>
  A stretch of the \<open>try\<close> block: the commands it runs, and the message of the error it
  throws, if it throws. \<open>thenStep\<close> runs the second stretch when the first has not thrown.
\<close>

type_synonym tart_step = "tart_cmd list \<times> string option"

definition thenStep :: "tart_step \<Rightarrow> tart_step \<Rightarrow> tart_step" where
  "thenStep a b = (case snd a of Some err \<Rightarrow> a | None \<Rightarrow> (fst a @ fst b, snd b))"

text \<open>An awaited \<open>executeSSH\<close> whose result is not looked at throws only when it rejects.\<close>

definition sshThrows :: "ssh_outcome \<Rightarrow> string option" where
  "sshThrows r = (case r of SshRejected msg \<Rightarrow> Some msg | SshResult code out err \<Rightarrow> None)"

text \<open>
  \<open>uploadConfigs\<close>: nothing is done when none of the configuration files exists. The archive
  is made before the inner \<open>try\<close>, so a failing \<open>tar\<close> leaves nothing to unlink; the \<open>finally\<close>
  unlinks the archive after the upload and the extraction, also when one of them throws.
\<close>

definition uploadConfigs :: "tart_host \<Rightarrow> tart_step" where
  "uploadConfigs h =
     (if configFiles h = [] then ([], None)
      else if \<not> tarOk h then ([TarConfigs (configFiles h)], Some (failureText h))
      else (case scpFailure h of
              Some msg \<Rightarrow> ([TarConfigs (configFiles h), ScpUpload, UnlinkTar], Some msg)
            | None \<Rightarrow>
                ([TarConfigs (configFiles h), ScpUpload, SshUntar, UnlinkTar],
                 sshThrows (untarSsh h))))"

text \<open>
  \<open>exportEnvVars\<close>: one \<open>export\<close> line for every variable of the environment whose name
  contains \<open>API_KEY\<close> and whose value is not empty; no command is run when there is none.
\<close>

definition exportEnvVars :: "tart_host \<Rightarrow> tart_step" where
  "exportEnvVars h =
     (let envVars =
            map (\<lambda>kv. ''export '' @ fst kv @ [CHR 0x3D, CHR 0x22] @ snd kv @ [CHR 0x22])
              (filter (\<lambda>kv. includesStr (fst kv) ''API_KEY'' \<and> snd kv \<noteq> []) (processEnv h))
      in if envVars = [] then ([], None)
         else ([SshExportEnv envVars], sshThrows (exportSsh h)))"

text \<open>
  \<open>executeAgentInVM\<close>: the error thrown (\<open>Inl\<close>), or \<open>stdout\<close> and the session id. The
  \<open>switch\<close> throws for a runtime it does not know before any command is run; a rejected
  \<open>executeSSH\<close> and an exit code other than 0 throw; \<open>extractSessionId\<close> looks for a session
  id only in the output of opencode.
\<close>

definition executeAgentInVM :: "tart_host \<Rightarrow> string \<Rightarrow> tart_cmd list \<times> (string + string \<times> string option)" where
  "executeAgentInVM h runtime =
     (if runtime \<notin> set [''claude'', ''codex'', ''opencode'']
      then ([], Inl (''Unknown runtime: '' @ runtime))
      else ([ExecuteAgent],
            (case agentSsh h of
               SshRejected msg \<Rightarrow> Inl msg
             | SshResult exitCode out err \<Rightarrow>
                 if exitCode \<noteq> 0
                 then Inl (''Agent execution failed with exit code '' @ showInt exitCode
                        @ '': '' @ sliceLast 500 err)
                 else Inr (out, if runtime = ''opencode'' then agentSessionId h else None))))"

text \<open>
  Steps 1 to 8 of the \<open>try\<close> block, up to the first throw. Creating the directories on the
  host is taken to succeed.
\<close>

definition tartSetup :: "string \<Rightarrow> tart_host \<Rightarrow> string \<Rightarrow> tart_step" where
  "tartSetup TART_BASE_IMAGE h vmName =
     thenStep ([TartList],
               (case listOutput h of
                  None \<Rightarrow> Some (failureText h)
                | Some images \<Rightarrow>
                    if includesStr images TART_BASE_IMAGE then None
                    else Some (''Tart base image '' @ [CHR 0x27] @ TART_BASE_IMAGE @ [CHR 0x27]
                           @ '' not found. Run scripts/prepare-tart-base.sh first.'')))
    (thenStep ([TartClone TART_BASE_IMAGE vmName], if cloneOk h then None else Some (failureText h))
    (thenStep ([TartRun vmName], if runOk h then None else Some (failureText h))
    (thenStep ([TartIp vmName],
               (case vmIP h of
                  None \<Rightarrow> Some (''Failed to get IP address for VM '' @ vmName @ '' after 30 attempts'')
                | Some ip \<Rightarrow> None))
    (thenStep ([SshProbe],
               (case vmIP h of
                  None \<Rightarrow> None
                | Some ip \<Rightarrow>
                    if sshReady h then None
                    else Some (''Failed to establish SSH connectivity to '' @ ip
                           @ '' after 30 attempts'')))
    (thenStep ([SshSymlink], sshThrows (symlinkSsh h))
    (thenStep (uploadConfigs h) (exportEnvVars h)))))))"

text \<open>
  The \<open>try\<close> block with its \<open>catch\<close>: the commands run, and the output returned, which is
  the error output with the message of the error thrown, or the success output.
\<close>

definition tartTry :: "string \<Rightarrow> tart_host \<Rightarrow> string \<Rightarrow> string \<Rightarrow> tart_cmd list \<times> container_output" where
  "tartTry TART_BASE_IMAGE h runtime vmName =
     (let setup = tartSetup TART_BASE_IMAGE h vmName
      in case snd setup of
           Some err \<Rightarrow> (fst setup, errorOutput err)
         | None \<Rightarrow>
             (let run = executeAgentInVM h runtime
              in (fst setup @ fst run,
                  (case snd run of
                     Inl err \<Rightarrow> errorOutput err
                   | Inr res \<Rightarrow>
                       \<lparr>status = Success, result = Some (fst res), newSessionId = snd res,
                        error = None\<rparr>))))"

text \<open>
  The \<open>finally\<close> block: \<open>tart stop\<close>, and \<open>tart delete\<close> behind it in the same \<open>try\<close>; a
  failing \<open>tart stop\<close> jumps to the \<open>catch\<close>, which only logs.
\<close>

definition tartFinally :: "tart_host \<Rightarrow> string \<Rightarrow> tart_cmd list" where
  "tartFinally h vmName = (if stopOk h then [TartStop vmName, TartDelete vmName] else [TartStop vmName])"

text \<open>The name of the clone: \<open>nanoclaw-${group.folder}-${Date.now()}\<close>.\<close>

definition vmNameOf :: "registered_group \<Rightarrow> nat \<Rightarrow> string" where
  "vmNameOf g now = ''nanoclaw-'' @ folder g @ ''-'' @ showNat now"

text \<open>
  \<open>runTartAgent\<close>, with the constant \<open>TART_BASE_IMAGE\<close>, the host, the agent CLI that
  \<open>getAgentRuntime\<close> picks for the group, and the value of \<open>Date.now()\<close>. The result is the
  list of commands run and the output returned.
\<close>

definition runTartAgent :: "string \<Rightarrow> tart_host \<Rightarrow> string \<Rightarrow> registered_group \<Rightarrow> nat \<Rightarrow> tart_cmd list \<times> container_output" where
  "runTartAgent TART_BASE_IMAGE h runtime g now =
     (let vmName = vmNameOf g now;
          tr = tartTry TART_BASE_IMAGE h runtime vmName
      in (fst tr @ tartFinally h vmName, snd tr))"

text \<open>
  The clones on the host after the run: the clone exists once \<open>tart clone\<close> has succeeded,
  and is gone once \<open>tart delete\<close> has run and succeeded.
\<close>

definition cloneLeft :: "tart_host \<Rightarrow> string \<Rightarrow> tart_cmd list \<Rightarrow> bool" where
  "cloneLeft h vmName cmds =
     (list_ex (\<lambda>c. case c of TartClone b v \<Rightarrow> v = vmName \<and> cloneOk h | _ \<Rightarrow> False) cmds
      \<and> \<not> (TartDelete vmName \<in> set cmds \<and> deleteOk h))"

section \<open>Worked examples\<close>

text \<open>
  A chat \<open>G1\<close> bound to a workspace that is not the main one, two pending messages of which
  the second carries the trigger, and two agents: one whose run ends in an error, one that
  streams a reply.
\<close>

definition exampleConfig :: config where
  "exampleConfig =
     \<lparr>ASSISTANT_NAME = ''Andy'', MAIN_GROUP_FOLDER = ''main'', REQUIRE_TRIGGER = True,
      TRIGGER_PATTERN_test = (\<lambda>s. prefix ''@Andy'' s),
      formatMessages = (\<lambda>ms. concat (map content ms))\<rparr>"

definition exampleGroup :: registered_group where
  "exampleGroup =
     \<lparr>name = ''Family Chat'', folder = ''family-chat'', trigger = ''@Andy'',
      added_at = ''2024-01-31T12:00:00Z'', requiresTrigger = None, containerConfig = None\<rparr>"

definition exampleMessages :: "new_message list" where
  "exampleMessages =
     [\<lparr>msg_id = ''m1'', chat_jid = ''G1'', sender = ''a'', sender_name = ''Alice'',
       content = ''pizza tonight?'', timestamp = ''2024-02-01T10:01:00Z''\<rparr>,
      \<lparr>msg_id = ''m2'', chat_jid = ''G1'', sender = ''a'', sender_name = ''Alice'',
       content = ''@Andy toppings?'', timestamp = ''2024-02-01T10:02:00Z''\<rparr>]"

definition exampleState :: router_state where
  "exampleState =
     \<lparr>lastTimestamp = ''2024-02-01T10:00:00Z'', sessions = Map.empty,
      registeredGroups = [''G1'' \<mapsto> exampleGroup], lastAgentTimestamp = Map.empty,
      db_last_timestamp = ''2024-02-01T10:00:00Z'', db_last_agent_timestamp = Map.empty,
      db_sessions = Map.empty, db_messages = exampleMessages, events = []\<rparr>"

text \<open>The same chat after an earlier run that consumed the first message.\<close>

definition resumedState :: router_state where
  "resumedState =
     exampleState\<lparr>lastAgentTimestamp := [''G1'' \<mapsto> ''2024-02-01T10:01:30Z''],
                  db_last_agent_timestamp := [''G1'' \<mapsto> ''2024-02-01T10:01:30Z'']\<rparr>"

definition failingAgent :: "registered_group \<Rightarrow> container_input \<Rightarrow> agent_run" where
  "failingAgent g inp = ([], Resolved (errorOutput ''OpenCode timed out after 300000ms''))"

definition exampleFrame :: container_output where
  "exampleFrame =
     \<lparr>status = Success, result = Some ''<internal>check the menu</internal> Pepperoni. '',
      newSessionId = Some ''S1'', error = None\<rparr>"

definition replyingAgent :: "registered_group \<Rightarrow> container_input \<Rightarrow> agent_run" where
  "replyingAgent g inp =
     ([exampleFrame], Resolved \<lparr>status = Success, result = None, newSessionId = Some ''S1'', error = None\<rparr>)"



text \<open>A queue whose \<open>sendMessage\<close> throws.\<close>

definition throwingQueue :: "string \<Rightarrow> string \<Rightarrow> pipe_outcome" where
  "throwingQueue jid text = PipeThrows"



text \<open>A JSON parser that knows one line of OpenCode output.\<close>

definition helloLine :: string where
  \<open>helloLine = ''{"type":"text","text":"Hello"}''\<close>

definition exampleJs :: js_env where
  "exampleJs =
     \<lparr>JSON_parse = (\<lambda>s. if s = helloLine
                          then Some (JObj [(''type'', JStr ''text''), (''text'', JStr ''Hello'')])
                          else None),
      String_of = (\<lambda>v. ''[object Object]'')\<rparr>"

text \<open>
  A workspace that is not the main one and asks for two additional mounts, both writable:
  an SSH directory and a project directory; and an allowlist that blocks the first and
  demands read-only for the second.
\<close>

definition sshMount :: additional_mount where
  "sshMount = \<lparr>hostPath = ''/home/u/.ssh'', containerPath = ''ssh'', readonly = Some False\<rparr>"

definition projectMount :: additional_mount where
  "projectMount = \<lparr>hostPath = ''/home/u/projects/app'', containerPath = ''app'', readonly = Some False\<rparr>"

definition mountingGroup :: registered_group where
  "mountingGroup =
     exampleGroup\<lparr>containerConfig :=
       Some \<lparr>additionalMounts = Some [sshMount, projectMount], timeout = None, cpus = None, ram = None\<rparr>\<rparr>"

definition exampleAllowlist :: mount_allowlist where
  "exampleAllowlist =
     \<lparr>allowedRoots = [\<lparr>root_path = [''home'', ''u'', ''projects''], allowReadWrite = True\<rparr>],
      blockedPatterns = [''.ssh'', ''.gnupg''], nonMainReadOnly = True\<rparr>"

text \<open>
  A host on which the clone is made but the VM never comes up, so that \<open>tart stop\<close> fails.
\<close>

definition stuckHost :: tart_host where
  "stuckHost =
     \<lparr>listOutput = Some ''tart_nanoclaw_base'', cloneOk = True, runOk = True, vmIP = None,
      sshReady = False, symlinkSsh = SshRejected ''SSH command timed out after 10000ms'',
      configFiles = [], tarOk = True, scpFailure = None,
      untarSsh = SshRejected ''SSH command timed out after 30000ms'', processEnv = [],
      exportSsh = SshRejected ''SSH command timed out after 30000ms'',
      agentSsh = SshRejected ''SSH command timed out after 60000ms'', agentSessionId = None,
      stopOk = False, deleteOk = True, failureText = ''Command failed''\<rparr>"

section \<open>Verification\<close>

subsection \<open>Effects of the router's primitives\<close>

lemma emit_fields [simp]:
  "lastTimestamp (emit e s) = lastTimestamp s"
  "sessions (emit e s) = sessions s"
  "registeredGroups (emit e s) = registeredGroups s"
  "lastAgentTimestamp (emit e s) = lastAgentTimestamp s"
  "db_last_timestamp (emit e s) = db_last_timestamp s"
  "db_last_agent_timestamp (emit e s) = db_last_agent_timestamp s"
  "db_sessions (emit e s) = db_sessions s"
  "db_messages (emit e s) = db_messages s"
  "events (emit e s) = events s @ [e]"
  by (simp_all add: emit_def)

lemma saveState_fields [simp]:
  "lastTimestamp (saveState s) = lastTimestamp s"
  "sessions (saveState s) = sessions s"
  "registeredGroups (saveState s) = registeredGroups s"
  "lastAgentTimestamp (saveState s) = lastAgentTimestamp s"
  "db_last_timestamp (saveState s) = lastTimestamp s"
  "db_last_agent_timestamp (saveState s) = lastAgentTimestamp s"
  "db_sessions (saveState s) = db_sessions s"
  "db_messages (saveState s) = db_messages s"
  "events (saveState s) = events s @ [SaveState (lastTimestamp s) (lastAgentTimestamp s)]"
  by (simp_all add: saveState_def)

lemma setSession_fields [simp]:
  "lastTimestamp (setSession f i s) = lastTimestamp s"
  "sessions (setSession f i s) = sessions s"
  "registeredGroups (setSession f i s) = registeredGroups s"
  "lastAgentTimestamp (setSession f i s) = lastAgentTimestamp s"
  "db_last_timestamp (setSession f i s) = db_last_timestamp s"
  "db_last_agent_timestamp (setSession f i s) = db_last_agent_timestamp s"
  "db_sessions (setSession f i s) = (db_sessions s)(f \<mapsto> i)"
  "db_messages (setSession f i s) = db_messages s"
  "events (setSession f i s) = events s @ [SetSession f i]"
  by (simp_all add: setSession_def)

lemma onOutput_keeps:
  "lastAgentTimestamp (fst (onOutput jid g r sh)) = lastAgentTimestamp (fst sh)"
  "lastTimestamp (fst (onOutput jid g r sh)) = lastTimestamp (fst sh)"
  "db_messages (fst (onOutput jid g r sh)) = db_messages (fst sh)"
  "registeredGroups (fst (onOutput jid g r sh)) = registeredGroups (fst sh)"
  "snd (onOutput jid g r sh) = (snd sh \<or> status r = Error)"
  by (simp_all add: onOutput_def Let_def)

lemma onOutput_persisted:
  "db_last_agent_timestamp (fst sh) = lastAgentTimestamp (fst sh) \<Longrightarrow>
   db_last_agent_timestamp (fst (onOutput jid g r sh)) = lastAgentTimestamp (fst sh)"
  by (simp add: onOutput_def Let_def)

lemma fold_onOutput_keeps:
  "lastAgentTimestamp (fst (fold (onOutput jid g) fs sh)) = lastAgentTimestamp (fst sh) \<and>
   lastTimestamp (fst (fold (onOutput jid g) fs sh)) = lastTimestamp (fst sh) \<and>
   db_messages (fst (fold (onOutput jid g) fs sh)) = db_messages (fst sh) \<and>
   registeredGroups (fst (fold (onOutput jid g) fs sh)) = registeredGroups (fst sh) \<and>
   snd (fold (onOutput jid g) fs sh) = (snd sh \<or> list_ex (\<lambda>f. status f = Error) fs)"
  by (induction fs arbitrary: sh) (auto simp: onOutput_keeps)

lemma fold_onOutput_persisted:
  "db_last_agent_timestamp (fst sh) = lastAgentTimestamp (fst sh) \<Longrightarrow>
   db_last_agent_timestamp (fst (fold (onOutput jid g) fs sh)) = lastAgentTimestamp (fst sh)"
proof (induction fs arbitrary: sh)
  case Nil
  then show ?case by simp
next
  case (Cons f fs)
  have "db_last_agent_timestamp (fst (onOutput jid g f sh)) = lastAgentTimestamp (fst (onOutput jid g f sh))"
    using Cons.prems by (simp add: onOutput_persisted onOutput_keeps)
  from Cons.IH [OF this] show ?case by (simp add: onOutput_keeps)
qed

lemma afterAgent_keeps:
  "lastAgentTimestamp (fst (afterAgent g e sh)) = lastAgentTimestamp (fst sh)"
  "lastTimestamp (fst (afterAgent g e sh)) = lastTimestamp (fst sh)"
  "db_messages (fst (afterAgent g e sh)) = db_messages (fst sh)"
  "db_last_agent_timestamp (fst (afterAgent g e sh)) = db_last_agent_timestamp (fst sh)"
  "snd (afterAgent g e sh) = (case e of Rejected err \<Rightarrow> True | Resolved out \<Rightarrow> snd sh \<or> status out = Error)"
  by (simp_all add: afterAgent_def split: agent_end.splits)




subsection \<open>The store queries\<close>




lemma fold_newest:
  "fold (\<lambda>m t. if t < timestamp m then timestamp m else t) msgs t0 = Max (insert t0 (timestamp ` set msgs))"
proof -
  have eq: "(\<lambda>m t. if t < timestamp m then timestamp m else t) = max \<circ> timestamp"
    by (auto simp: fun_eq_iff max_def)
  have "fold (max \<circ> timestamp) msgs t0 = fold max (map timestamp msgs) t0"
    by (simp add: fold_map)
  then have "fold (\<lambda>m t. if t < timestamp m then timestamp m else t) msgs t0 = fold max (map timestamp msgs) t0"
    unfolding eq .
  also have "\<dots> = Max (set (t0 # map timestamp msgs))"
    by (simp only: Max.set_eq_fold)
  finally show ?thesis by simp
qed

lemma getNewMessages_newest:
  assumes "fst (getNewMessages db isJid t0 nm) \<noteq> []"
  shows "snd (getNewMessages db isJid t0 nm) = Max (timestamp ` set (fst (getNewMessages db isJid t0 nm)))"
    and "t0 < snd (getNewMessages db isJid t0 nm)"
proof -
  let ?msgs = "fst (getNewMessages db isJid t0 nm)"
  let ?S = "timestamp ` set ?msgs"
  have fin: "finite ?S" by simp
  have ne: "?S \<noteq> {}" using assms by simp
  have gt: "\<forall>t\<in>?S. t0 < t" by (auto simp: getNewMessages_def Let_def)
  have snd_eq: "snd (getNewMessages db isJid t0 nm) = Max (insert t0 ?S)"
    by (simp add: getNewMessages_def Let_def fold_newest)
  obtain m where m: "m \<in> set ?msgs" using assms by (cases ?msgs) auto
  then have "t0 < timestamp m" using gt by simp
  moreover have "timestamp m \<le> Max ?S" using m fin by simp
  ultimately have "t0 < Max ?S" by simp
  then have "max t0 (Max ?S) = Max ?S" by (intro max_absorb2 less_imp_le)
  moreover have "Max (insert t0 ?S) = max t0 (Max ?S)" using fin ne by (rule Max_insert)
  ultimately have "Max (insert t0 ?S) = Max ?S" by simp
  with snd_eq show "snd (getNewMessages db isJid t0 nm) = Max ?S" by simp
  with \<open>t0 < Max ?S\<close> show "t0 < snd (getNewMessages db isJid t0 nm)" by simp
qed

subsection \<open>A run of \<open>processGroupMessages\<close>\<close>


lemma runGroup_cursor:
  fixes cfg runAgent jid g missed s
  defines "r \<equiv> runGroup cfg runAgent jid g missed s"
    and "run \<equiv> runAgent g (agentInput cfg jid g missed s)"
  shows "fst r = (\<not> terminalError run)"
    and "lastAgentTimestamp (snd r) =
           (lastAgentTimestamp s)(jid \<mapsto> (if terminalError run then cursorOf s jid else timestamp (last missed)))"
    and "db_last_agent_timestamp (snd r) = lastAgentTimestamp (snd r)"
    and "db_messages (snd r) = db_messages s"
    and "lastTimestamp (snd r) = lastTimestamp s"
proof -
  define s4 where "s4 = emit (WriteGroupsSnapshot (folder g) (folder g = MAIN_GROUP_FOLDER cfg))
     (emit (WriteTasksSnapshot (folder g) (folder g = MAIN_GROUP_FOLDER cfg))
       (emit (SetTyping jid True)
         (saveState (s\<lparr>lastAgentTimestamp := (lastAgentTimestamp s)(jid \<mapsto> timestamp (last missed))\<rparr>))))"
  define inp where "inp = agentInput cfg jid g missed s4"
  define s5 where "s5 = emit (RunAgent inp) s4"
  define sh6 where "sh6 = fold (onOutput jid g) (fst (runAgent g inp)) (s5, False)"
  define sh7 where "sh7 = afterAgent g (snd (runAgent g inp)) sh6"
  define s8 where "s8 = emit (SetTyping jid False) (fst sh7)"
  have inp_eq: "inp = agentInput cfg jid g missed s"
    by (simp add: inp_def s4_def agentInput_def)
  have run_eq: "run = runAgent g inp" by (simp add: run_def inp_eq)
  have s5_lat: "lastAgentTimestamp s5 = (lastAgentTimestamp s)(jid \<mapsto> timestamp (last missed))"
    and s5_db: "db_last_agent_timestamp s5 = lastAgentTimestamp s5"
    and s5_msgs: "db_messages s5 = db_messages s"
    and s5_lt: "lastTimestamp s5 = lastTimestamp s"
    by (simp_all add: s5_def s4_def)
  have k6: "lastAgentTimestamp (fst sh6) = lastAgentTimestamp s5"
    "db_messages (fst sh6) = db_messages s5"
    "lastTimestamp (fst sh6) = lastTimestamp s5"
    "snd sh6 = list_ex (\<lambda>f. status f = Error) (fst (runAgent g inp))"
    using fold_onOutput_keeps [of jid g "fst (runAgent g inp)" "(s5, False)"]
    by (simp_all add: sh6_def)
  have p6: "db_last_agent_timestamp (fst sh6) = lastAgentTimestamp s5"
    using fold_onOutput_persisted [of "(s5, False)" jid g "fst (runAgent g inp)"] s5_db
    by (simp add: sh6_def)
  have k7: "lastAgentTimestamp (fst sh7) = lastAgentTimestamp s5"
    "db_messages (fst sh7) = db_messages s5"
    "lastTimestamp (fst sh7) = lastTimestamp s5"
    "db_last_agent_timestamp (fst sh7) = lastAgentTimestamp s5"
    by (simp_all add: sh7_def afterAgent_keeps k6 p6)
  have h7: "snd sh7 = terminalError run"
    by (auto simp: sh7_def afterAgent_keeps k6 terminalError_def run_eq split: agent_end.splits)
  have res: "r = (if snd sh7
       then (False, saveState (s8\<lparr>lastAgentTimestamp := (lastAgentTimestamp s8)(jid \<mapsto> cursorOf s jid)\<rparr>))
       else (True, s8))"
    by (simp add: r_def runGroup_def Let_def s8_def sh7_def sh6_def s5_def inp_def s4_def)
  show "fst r = (\<not> terminalError run)" by (simp add: res h7)
  show "lastAgentTimestamp (snd r) =
           (lastAgentTimestamp s)(jid \<mapsto> (if terminalError run then cursorOf s jid else timestamp (last missed)))"
    by (simp add: res h7 s8_def k7 s5_lat)
  show "db_last_agent_timestamp (snd r) = lastAgentTimestamp (snd r)"
    by (simp add: res h7 s8_def k7)
  show "db_messages (snd r) = db_messages s"
    by (simp add: res h7 s8_def k7 s5_msgs)
  show "lastTimestamp (snd r) = lastTimestamp s"
    by (simp add: res h7 s8_def k7 s5_lt)
qed

lemma processGroupMessages_run:
  assumes "registeredGroups s jid = Some g"
    and "getMessagesSince (db_messages s) jid (cursorOf s jid) (ASSISTANT_NAME cfg) = missed"
    and "missed \<noteq> []"
    and "needsTrigger cfg g \<longrightarrow> hasTrigger cfg missed"
  shows "processGroupMessages cfg runAgent jid s = runGroup cfg runAgent jid g missed s"
  using assms by (auto simp: processGroupMessages_def Let_def)

text \<open>The facts about the worked example that the instances below start from.\<close>

lemma example_registered: "registeredGroups exampleState ''G1'' = Some exampleGroup"
  by (simp add: exampleState_def)


lemma example_nonempty: "exampleMessages \<noteq> []"
  by (simp add: exampleMessages_def)

lemma example_triggered: "needsTrigger exampleConfig exampleGroup \<longrightarrow> hasTrigger exampleConfig exampleMessages"
  by (simp add: hasTrigger_def exampleConfig_def exampleMessages_def trim_def trimStart_def trimEnd_def isWhitespace_def)

text \<open>
  Claim C1. When \<open>processGroupMessages\<close> runs the agent for a chat (the workspace
  is registered, there are pending messages, and the trigger rule lets them through) and the
  run ends in a terminal error (an error frame, an error output as the runners give for a
  non-zero exit code, a spawn error or a timeout, or a rejected promise), the function
  returns false and \<open>lastAgentTimestamp[chatJid]\<close> holds again the value it held before the
  run, in memory and in the store; an entry that was absent, which every reader takes as
  the empty string, comes back as the empty string. The cursors of the other chats are as
  before, and the next fetch returns the same pending messages. When the run succeeds, the
  function returns true and the advanced cursor stays, in memory and in the store.
\<close>

theorem processGroupMessages_rollback:
  assumes "registeredGroups s jid = Some g"
    and "getMessagesSince (db_messages s) jid
           (case lastAgentTimestamp s jid of None \<Rightarrow> [] | Some t \<Rightarrow> t) (ASSISTANT_NAME cfg) = missed"
    and "missed \<noteq> []"
    and "needsTrigger cfg g \<longrightarrow> hasTrigger cfg missed"
    and "processGroupMessages cfg runAgent jid s = (ok, s')"
  shows "(terminalError (runAgent g (agentInput cfg jid g missed s)) \<longrightarrow>
            \<not> ok \<and>
            (\<forall>t. lastAgentTimestamp s jid = Some t \<longrightarrow>
                   lastAgentTimestamp s' jid = Some t \<and> db_last_agent_timestamp s' jid = Some t) \<and>
            (lastAgentTimestamp s jid = None \<longrightarrow>
                   lastAgentTimestamp s' jid = Some [] \<and> db_last_agent_timestamp s' jid = Some []) \<and>
            (\<forall>j. j \<noteq> jid \<longrightarrow> lastAgentTimestamp s' j = lastAgentTimestamp s j) \<and>
            getMessagesSince (db_messages s') jid
              (case lastAgentTimestamp s' jid of None \<Rightarrow> [] | Some t \<Rightarrow> t) (ASSISTANT_NAME cfg) = missed) \<and>
         (\<not> terminalError (runAgent g (agentInput cfg jid g missed s)) \<longrightarrow>
            ok \<and>
            lastAgentTimestamp s' jid = Some (timestamp (last missed)) \<and>
            db_last_agent_timestamp s' jid = Some (timestamp (last missed)))"
proof -
  have fetch: "getMessagesSince (db_messages s) jid (cursorOf s jid) (ASSISTANT_NAME cfg) = missed"
    using assms(2) by (simp add: cursorOf_def)
  have run: "runGroup cfg runAgent jid g missed s = (ok, s')"
    using processGroupMessages_run [OF assms(1) fetch assms(3,4)] assms(5) by simp
  have ok: "ok = (\<not> terminalError (runAgent g (agentInput cfg jid g missed s)))"
    using runGroup_cursor(1) [of cfg runAgent jid g missed s] run by simp
  have lat: "lastAgentTimestamp s' =
      (lastAgentTimestamp s)(jid \<mapsto> (if terminalError (runAgent g (agentInput cfg jid g missed s))
                                        then cursorOf s jid else timestamp (last missed)))"
    using runGroup_cursor(2) [of cfg runAgent jid g missed s] run by simp
  have db: "db_last_agent_timestamp s' = lastAgentTimestamp s'"
    using runGroup_cursor(3) [of cfg runAgent jid g missed s] run by simp
  have msgs: "db_messages s' = db_messages s"
    using runGroup_cursor(4) [of cfg runAgent jid g missed s] run by simp
  show ?thesis
  proof (cases "terminalError (runAgent g (agentInput cfg jid g missed s))")
    case True
    have restored: "lastAgentTimestamp s' jid =
        Some (case lastAgentTimestamp s jid of None \<Rightarrow> [] | Some t \<Rightarrow> t)"
      using True by (simp add: lat cursorOf_def)
    have others: "\<forall>j. j \<noteq> jid \<longrightarrow> lastAgentTimestamp s' j = lastAgentTimestamp s j"
      by (simp add: lat)
    have again: "getMessagesSince (db_messages s') jid
              (case lastAgentTimestamp s' jid of None \<Rightarrow> [] | Some t \<Rightarrow> t) (ASSISTANT_NAME cfg) = missed"
      using assms(2) by (simp add: restored msgs)
    from True others again show ?thesis
      by (simp add: ok db restored)
  next
    case False
    then show ?thesis by (simp add: ok lat db)
  qed
qed

theorem processGroupMessages_rollback_witness:
  "lastAgentTimestamp resumedState ''G1'' = Some ''2024-02-01T10:01:30Z'' \<and>
   \<not> fst (processGroupMessages exampleConfig failingAgent ''G1'' resumedState) \<and>
   lastAgentTimestamp (snd (processGroupMessages exampleConfig failingAgent ''G1'' resumedState)) ''G1''
     = Some ''2024-02-01T10:01:30Z'' \<and>
   db_last_agent_timestamp (snd (processGroupMessages exampleConfig failingAgent ''G1'' resumedState)) ''G1''
     = Some ''2024-02-01T10:01:30Z'' \<and>
   fst (processGroupMessages exampleConfig replyingAgent ''G1'' resumedState) \<and>
   lastAgentTimestamp (snd (processGroupMessages exampleConfig replyingAgent ''G1'' resumedState)) ''G1''
     = Some ''2024-02-01T10:02:00Z'' \<and>
   lastAgentTimestamp (snd (processGroupMessages exampleConfig failingAgent ''G1'' exampleState)) ''G1''
     = Some []"
proof -
  let ?m2 = "\<lparr>msg_id = ''m2'', chat_jid = ''G1'', sender = ''a'', sender_name = ''Alice'',
       content = ''@Andy toppings?'', timestamp = ''2024-02-01T10:02:00Z''\<rparr>"
  have reg: "registeredGroups resumedState ''G1'' = Some exampleGroup"
    by (simp add: resumedState_def exampleState_def)
  have cur: "lastAgentTimestamp resumedState ''G1'' = Some ''2024-02-01T10:01:30Z''"
    by (simp add: resumedState_def)
  have pending: "getMessagesSince (db_messages resumedState) ''G1''
       (case lastAgentTimestamp resumedState ''G1'' of None \<Rightarrow> [] | Some t \<Rightarrow> t)
       (ASSISTANT_NAME exampleConfig) = [?m2]"
    by (simp add: resumedState_def exampleState_def exampleConfig_def exampleMessages_def
        getMessagesSince_def)
  have ne: "[?m2] \<noteq> []" by simp
  have trig: "needsTrigger exampleConfig exampleGroup \<longrightarrow> hasTrigger exampleConfig [?m2]"
    by (simp add: hasTrigger_def exampleConfig_def trim_def trimStart_def trimEnd_def isWhitespace_def)
  have bad: "terminalError (failingAgent exampleGroup (agentInput exampleConfig ''G1'' exampleGroup [?m2] resumedState))"
    by (simp add: terminalError_def failingAgent_def errorOutput_def)
  have good: "\<not> terminalError (replyingAgent exampleGroup (agentInput exampleConfig ''G1'' exampleGroup [?m2] resumedState))"
    by (simp add: terminalError_def replyingAgent_def exampleFrame_def)
  have pending0: "getMessagesSince (db_messages exampleState) ''G1''
       (case lastAgentTimestamp exampleState ''G1'' of None \<Rightarrow> [] | Some t \<Rightarrow> t)
       (ASSISTANT_NAME exampleConfig) = exampleMessages"
    by (simp add: exampleState_def exampleConfig_def exampleMessages_def getMessagesSince_def)
  have cur0: "lastAgentTimestamp exampleState ''G1'' = None"
    by (simp add: exampleState_def)
  have bad0: "terminalError (failingAgent exampleGroup (agentInput exampleConfig ''G1'' exampleGroup exampleMessages exampleState))"
    by (simp add: terminalError_def failingAgent_def errorOutput_def)
  note F = processGroupMessages_rollback [OF reg pending ne trig surjective_pairing, of failingAgent,
      THEN conjunct1, rule_format, OF bad]
  note R = processGroupMessages_rollback [OF reg pending ne trig surjective_pairing, of replyingAgent,
      THEN conjunct2, rule_format, OF good]
  note E = processGroupMessages_rollback [OF example_registered pending0 example_nonempty
      example_triggered surjective_pairing, of failingAgent, THEN conjunct1, rule_format, OF bad0]
  have f1: "\<not> fst (processGroupMessages exampleConfig failingAgent ''G1'' resumedState)"
    using F by (rule conjunct1)
  have f2: "lastAgentTimestamp (snd (processGroupMessages exampleConfig failingAgent ''G1'' resumedState)) ''G1''
     = Some ''2024-02-01T10:01:30Z'' \<and>
   db_last_agent_timestamp (snd (processGroupMessages exampleConfig failingAgent ''G1'' resumedState)) ''G1''
     = Some ''2024-02-01T10:01:30Z''"
    using F [THEN conjunct2, THEN conjunct1, rule_format, OF cur] .
  have r1: "fst (processGroupMessages exampleConfig replyingAgent ''G1'' resumedState) \<and>
   lastAgentTimestamp (snd (processGroupMessages exampleConfig replyingAgent ''G1'' resumedState)) ''G1''
     = Some ''2024-02-01T10:02:00Z''"
    using R by simp
  have e1: "lastAgentTimestamp (snd (processGroupMessages exampleConfig failingAgent ''G1'' exampleState)) ''G1''
     = Some []"
    using E [THEN conjunct2, THEN conjunct2, THEN conjunct1, rule_format, OF cur0] by (rule conjunct1)
  from cur f1 f2 r1 e1 show ?thesis by simp
qed








subsection \<open>The streaming callback\<close>

text \<open>
  Claim C3. For a streamed frame that carries a \<open>newSessionId\<close> (the test of the code:
  present and not empty), the effects of the callback are the \<open>setSession\<close> first, and after
  it the \<open>sendMessage\<close> of the frame's reply, when there is one, and the \<open>saveState\<close>; the
  session is then in the store and in the \<open>sessions\<close> variable.
\<close>

theorem onOutput_session_before_reply:
  assumes "newSessionId r = Some sid" and "sid \<noteq> []"
  shows "events (fst (onOutput jid g r (s, h))) =
           events s @ [SetSession (folder g) sid]
             @ (if truthy (result r) \<and> trim (stripInternal (the (result r))) \<noteq> []
                then [SendMessage jid (trim (stripInternal (the (result r)))),
                      SaveState (lastTimestamp s) (lastAgentTimestamp s)]
                else []) \<and>
         db_sessions (fst (onOutput jid g r (s, h))) (folder g) = Some sid \<and>
         sessions (fst (onOutput jid g r (s, h))) (folder g) = Some sid"
  using assms by (simp add: onOutput_def Let_def)

theorem onOutput_session_before_reply_witness:
  "events (fst (onOutput ''G1'' exampleGroup exampleFrame (exampleState, False))) =
     [SetSession ''family-chat'' ''S1'', SendMessage ''G1'' ''Pepperoni.'',
      SaveState ''2024-02-01T10:00:00Z'' Map.empty] \<and>
   db_sessions (fst (onOutput ''G1'' exampleGroup exampleFrame (exampleState, False))) ''family-chat'' = Some ''S1''"
proof -
  have a: "newSessionId exampleFrame = Some ''S1''" by (simp add: exampleFrame_def)
  have b: "''S1'' \<noteq> []" by simp
  have t: "trim (stripInternal (the (result exampleFrame))) = ''Pepperoni.''"
    by (simp add: exampleFrame_def internalOpen_def internalClose_def trim_def trimStart_def trimEnd_def isWhitespace_def)
  have r: "truthy (result exampleFrame)" by (simp add: exampleFrame_def)
  have f: "folder exampleGroup = ''family-chat''" "events exampleState = []"
    "lastTimestamp exampleState = ''2024-02-01T10:00:00Z''" "lastAgentTimestamp exampleState = Map.empty"
    by (simp_all add: exampleGroup_def exampleState_def)
  show ?thesis
    using onOutput_session_before_reply [OF a b, of "''G1''" exampleGroup exampleState False]
    by (simp add: t r f)
qed

subsection \<open>Stripping of \<open><internal>\<close> blocks\<close>

lemma prefix_overlap:
  assumes "prefix P (u @ P @ rest)" and "u \<noteq> []"
  shows "prefix P (u @ butlast P)"
proof (cases "P = []")
  case True
  then show ?thesis by simp
next
  case False
  then have P: "P = butlast P @ [last P]" by simp
  have len: "length P \<le> length (u @ butlast P)"
    using assms(2) False by (cases u) auto
  have "take (length P) (u @ P @ rest) = P"
    using assms(1) by (metis append_eq_conv_conj prefix_def)
  moreover have "u @ P @ rest = (u @ butlast P) @ ([last P] @ rest)"
    using P by (metis append.assoc)
  ultimately have "take (length P) ((u @ butlast P) @ ([last P] @ rest)) = P" by simp
  then have "take (length P) (u @ butlast P) = P"
    using len by simp
  then show ?thesis
    by (metis take_is_prefix)
qed

lemma stripInternal_skip:
  assumes "\<not> includesStr (a @ butlast internalOpen) internalOpen"
  shows "stripInternal (a @ internalOpen @ rest) = a @ stripInternal (internalOpen @ rest)"
  using assms
proof (induction a)
  case Nil
  then show ?case by simp
next
  case (Cons x a)
  have np: "\<not> prefix internalOpen ((x # a) @ butlast internalOpen)"
    using Cons.prems by simp
  have "\<not> prefix internalOpen ((x # a) @ internalOpen @ rest)"
    using np prefix_overlap [of internalOpen "x # a" rest] by blast
  moreover have "\<not> includesStr (a @ butlast internalOpen) internalOpen"
    using Cons.prems by simp
  ultimately show ?case using Cons.IH by simp
qed

lemma afterFirst_first:
  assumes "\<not> includesStr (b @ butlast P) P" and "P \<noteq> []"
  shows "afterFirst P (b @ P @ c) = Some c"
  using assms
proof (induction b)
  case Nil
  then obtain p ps where "P = p # ps" by (cases P) auto
  then show ?case by simp
next
  case (Cons x b)
  have "\<not> prefix P ((x # b) @ butlast P)" using Cons.prems by simp
  then have "\<not> prefix P ((x # b) @ P @ c)"
    using prefix_overlap [of P "x # b" c] by blast
  moreover have "\<not> includesStr (b @ butlast P) P" using Cons.prems by simp
  ultimately show ?case using Cons.IH Cons.prems(2) by simp
qed

lemma stripInternal_block:
  assumes "\<not> includesStr (a @ butlast internalOpen) internalOpen"
    and "\<not> includesStr (b @ butlast internalClose) internalClose"
  shows "stripInternal (a @ internalOpen @ b @ internalClose @ c) = a @ stripInternal c"
proof -
  have skip: "stripInternal (a @ internalOpen @ b @ internalClose @ c)
        = a @ stripInternal (internalOpen @ b @ internalClose @ c)"
    using stripInternal_skip [OF assms(1)] by simp
  have close: "afterFirst internalClose (b @ internalClose @ c) = Some c"
    using afterFirst_first [OF assms(2)] by (simp add: internalClose_def)
  have "stripInternal (internalOpen @ b @ internalClose @ c) = stripInternal c"
    using close by (simp add: internalOpen_def)
  with skip show ?thesis by simp
qed

lemma stripInternal_plain:
  "\<not> includesStr raw internalOpen \<Longrightarrow> stripInternal raw = raw"
  by (induction raw) auto

lemma afterFirst_None: "\<not> includesStr s P \<Longrightarrow> afterFirst P s = None"
  by (induction s) auto

lemma includesStr_drop: "includesStr (drop n s) P \<Longrightarrow> includesStr s P"
proof (induction s arbitrary: n)
  case Nil
  then show ?case by simp
next
  case (Cons c cs)
  show ?case
  proof (cases n)
    case 0
    with Cons.prems show ?thesis by simp
  next
    case (Suc k)
    with Cons.prems have "includesStr (drop k cs) P" by simp
    then have "includesStr cs P" by (rule Cons.IH)
    then show ?thesis by simp
  qed
qed

lemma stripInternal_unclosed:
  "\<not> includesStr s internalClose \<Longrightarrow> stripInternal s = s"
proof (induction s)
  case Nil
  then show ?case by simp
next
  case (Cons c cs)
  have tl: "\<not> includesStr cs internalClose" using Cons.prems by simp
  have "\<not> includesStr (drop (length internalOpen) (c # cs)) internalClose"
    using Cons.prems includesStr_drop by blast
  then have "afterFirst internalClose (drop (length internalOpen) (c # cs)) = None"
    by (rule afterFirst_None)
  then show ?case using Cons.IH [OF tl] by simp
qed

lemma stripInternal_open_unclosed:
  assumes "\<not> includesStr (a @ butlast internalOpen) internalOpen"
    and "\<not> includesStr rest internalClose"
  shows "stripInternal (a @ internalOpen @ rest) = a @ internalOpen @ rest"
proof -
  have "\<not> includesStr (internalOpen @ rest) internalClose"
    using assms(2) by (simp add: internalOpen_def internalClose_def)
  then have "stripInternal (internalOpen @ rest) = internalOpen @ rest"
    by (rule stripInternal_unclosed)
  then show ?thesis
    using stripInternal_skip [OF assms(1), of rest] by simp
qed

text \<open>
  Claim C8. As stated the claim fails: the replacement is one pass from left to right, and
  what it leaves can hold text that stood between an opening and a closing tag, or a whole
  \<open><internal>...</internal>\<close> block. Of a block nested in another, the pass removes the
  text from the first opening tag to the first closing tag, and the rest of the outer
  block is sent; of an opening tag interrupted by a block, the removal of the block puts
  together a tag, and the block that it opens is sent whole.
\<close>

theorem onOutput_sends_internal_text:
  "SendMessage ''G1'' ''aSECRET</internal>b'' \<in> set (events (fst (onOutput ''G1'' exampleGroup
       \<lparr>status = Success, result = Some ''a<internal><internal>x</internal>SECRET</internal>b'',
        newSessionId = None, error = None\<rparr> (exampleState, False)))) \<and>
   SendMessage ''G1'' ''<internal>secret plan</internal>ok'' \<in> set (events (fst (onOutput ''G1'' exampleGroup
       \<lparr>status = Success, result = Some ''<inter<internal>x</internal>nal>secret plan</internal>ok'',
        newSessionId = None, error = None\<rparr> (exampleState, False))))"
  by (simp add: onOutput_def Let_def internalOpen_def internalClose_def trim_def trimStart_def
      trimEnd_def isWhitespace_def)

text \<open>
  Claim C8, amended. Every message that the callback of \<open>processGroupMessages\<close> sends for a
  frame is the frame's result after one pass of the replacement from left to right, then
  trimmed, and is not empty; when that text is not empty it is sent, and when it is empty
  nothing is sent. The pass removes each match that it finds, whole, and does not look
  again at what a removal has put together: a text whose first opening tag is followed by a
  closing tag loses everything from that opening tag through the first closing tag behind
  it, and the text behind that is treated alike; a text whose first opening tag has no
  closing tag behind it, and a text without an opening tag, are unchanged.
\<close>

theorem onOutput_reply_is_stripped:
  "(\<exists>new. events (fst (onOutput jid g r (s, h))) = events s @ new \<and>
       (\<forall>j t. SendMessage j t \<in> set new \<longrightarrow>
          j = jid \<and> t \<noteq> [] \<and> (\<exists>raw. result r = Some raw \<and> t = trim (stripInternal raw))) \<and>
       (\<forall>raw. result r = Some raw \<and> trim (stripInternal raw) \<noteq> [] \<longrightarrow>
          SendMessage jid (trim (stripInternal raw)) \<in> set new)) \<and>
   (\<forall>a b c. \<not> includesStr (a @ butlast internalOpen) internalOpen \<and>
            \<not> includesStr (b @ butlast internalClose) internalClose \<longrightarrow>
      stripInternal (a @ internalOpen @ b @ internalClose @ c) = a @ stripInternal c) \<and>
   (\<forall>a rest. \<not> includesStr (a @ butlast internalOpen) internalOpen \<and>
            \<not> includesStr rest internalClose \<longrightarrow>
      stripInternal (a @ internalOpen @ rest) = a @ internalOpen @ rest) \<and>
   (\<forall>raw. \<not> includesStr raw internalOpen \<longrightarrow> stripInternal raw = raw)"
proof (intro conjI)
  define new where "new =
     (if truthy (newSessionId r) then [SetSession (folder g) (the (newSessionId r))] else [])
     @ (if truthy (result r) \<and> trim (stripInternal (the (result r))) \<noteq> []
        then [SendMessage jid (trim (stripInternal (the (result r)))),
              SaveState (lastTimestamp s) (lastAgentTimestamp s)]
        else [])"
  have ev: "events (fst (onOutput jid g r (s, h))) = events s @ new"
    by (simp add: onOutput_def Let_def new_def)
  have only: "\<forall>j t. SendMessage j t \<in> set new \<longrightarrow>
          j = jid \<and> t \<noteq> [] \<and> (\<exists>raw. result r = Some raw \<and> t = trim (stripInternal raw))"
    by (cases "result r") (auto simp: new_def split: if_splits)
  have sent: "\<forall>raw. result r = Some raw \<and> trim (stripInternal raw) \<noteq> [] \<longrightarrow>
          SendMessage jid (trim (stripInternal raw)) \<in> set new"
  proof (intro allI impI)
    fix raw
    assume a: "result r = Some raw \<and> trim (stripInternal raw) \<noteq> []"
    then have "raw \<noteq> []" by (auto simp: trim_def trimStart_def trimEnd_def)
    with a show "SendMessage jid (trim (stripInternal raw)) \<in> set new"
      by (simp add: new_def)
  qed
  from ev only sent
  show "\<exists>new. events (fst (onOutput jid g r (s, h))) = events s @ new \<and>
       (\<forall>j t. SendMessage j t \<in> set new \<longrightarrow>
          j = jid \<and> t \<noteq> [] \<and> (\<exists>raw. result r = Some raw \<and> t = trim (stripInternal raw))) \<and>
       (\<forall>raw. result r = Some raw \<and> trim (stripInternal raw) \<noteq> [] \<longrightarrow>
          SendMessage jid (trim (stripInternal raw)) \<in> set new)"
    by blast
next
  show "\<forall>a b c. \<not> includesStr (a @ butlast internalOpen) internalOpen \<and>
            \<not> includesStr (b @ butlast internalClose) internalClose \<longrightarrow>
      stripInternal (a @ internalOpen @ b @ internalClose @ c) = a @ stripInternal c"
    using stripInternal_block by blast
next
  show "\<forall>a rest. \<not> includesStr (a @ butlast internalOpen) internalOpen \<and>
            \<not> includesStr rest internalClose \<longrightarrow>
      stripInternal (a @ internalOpen @ rest) = a @ internalOpen @ rest"
    using stripInternal_open_unclosed by blast
next
  show "\<forall>raw. \<not> includesStr raw internalOpen \<longrightarrow> stripInternal raw = raw"
    using stripInternal_plain by blast
qed

theorem onOutput_reply_is_stripped_witness:
  "SendMessage ''G1'' ''Pepperoni.'' \<in> set (events (fst (onOutput ''G1'' exampleGroup exampleFrame (exampleState, False)))) \<and>
   stripInternal ''Sure. <internal>look it up</internal>Done'' = ''Sure. Done'' \<and>
   stripInternal ''a</internal>b<internal>c'' = ''a</internal>b<internal>c''"
proof -
  have t: "trim (stripInternal ''<internal>check the menu</internal> Pepperoni. '') = ''Pepperoni.''"
    by (simp add: internalOpen_def internalClose_def trim_def trimStart_def trimEnd_def isWhitespace_def)
  have res: "result exampleFrame = Some ''<internal>check the menu</internal> Pepperoni. ''"
    by (simp add: exampleFrame_def)
  note T = onOutput_reply_is_stripped [of "''G1''" exampleGroup exampleFrame exampleState False]
  note T1 = T [THEN conjunct1]
  note T2 = T [THEN conjunct2, THEN conjunct1, rule_format]
  note T3 = T [THEN conjunct2, THEN conjunct2, THEN conjunct2, rule_format]
  note T4 = T [THEN conjunct2, THEN conjunct2, THEN conjunct1, rule_format]
  from T1 obtain new where
    ev: "events (fst (onOutput ''G1'' exampleGroup exampleFrame (exampleState, False))) = events exampleState @ new"
    and sent: "\<forall>raw. result exampleFrame = Some raw \<and> trim (stripInternal raw) \<noteq> [] \<longrightarrow>
          SendMessage ''G1'' (trim (stripInternal raw)) \<in> set new"
    by (elim exE conjE)
  have "SendMessage ''G1'' (trim (stripInternal ''<internal>check the menu</internal> Pepperoni. '')) \<in> set new"
    using sent [rule_format, of "''<internal>check the menu</internal> Pepperoni. ''"] res
    by (simp only: t) simp
  then have one: "SendMessage ''G1'' ''Pepperoni.'' \<in> set (events (fst (onOutput ''G1'' exampleGroup exampleFrame (exampleState, False))))"
    by (simp only: t ev) simp
  have "stripInternal (''Sure. '' @ internalOpen @ ''look it up'' @ internalClose @ ''Done'') = ''Sure. '' @ stripInternal ''Done''"
    by (rule T2) (simp add: internalOpen_def internalClose_def)
  moreover have "stripInternal ''Done'' = ''Done''"
    by (rule T3) (simp add: internalOpen_def)
  ultimately have two: "stripInternal ''Sure. <internal>look it up</internal>Done'' = ''Sure. Done''"
    by (simp add: internalOpen_def internalClose_def)
  have "stripInternal (''a</internal>b'' @ internalOpen @ ''c'') = ''a</internal>b'' @ internalOpen @ ''c''"
    by (rule T4) (simp add: internalOpen_def internalClose_def)
  then have three: "stripInternal ''a</internal>b<internal>c'' = ''a</internal>b<internal>c''"
    by (simp add: internalOpen_def)
  from one two three show ?thesis by (intro conjI)
qed

subsection \<open>The trigger rule\<close>



subsection \<open>The message loop\<close>

lemma loopGroupStep_keeps:
  "lastTimestamp (fst (loopGroupStep cfg q kv s)) = lastTimestamp s"
  "db_last_timestamp s = lastTimestamp s \<Longrightarrow> db_last_timestamp (fst (loopGroupStep cfg q kv s)) = lastTimestamp s"
  "\<exists>ext. events (fst (loopGroupStep cfg q kv s)) = events s @ ext"
  by (simp_all add: loopGroupStep_def Let_def split: option.splits pipe_outcome.splits)

lemma forEachGroup_keeps:
  "lastTimestamp (fst (forEachGroup cfg q kvs s)) = lastTimestamp s \<and>
   (db_last_timestamp s = lastTimestamp s \<longrightarrow> db_last_timestamp (fst (forEachGroup cfg q kvs s)) = lastTimestamp s) \<and>
   (\<exists>ext. events (fst (forEachGroup cfg q kvs s)) = events s @ ext)"
proof (induction kvs arbitrary: s)
  case Nil
  then show ?case by simp
next
  case (Cons kv kvs)
  obtain s1 b where step: "loopGroupStep cfg q kv s = (s1, b)" by (cases "loopGroupStep cfg q kv s")
  have k1: "lastTimestamp s1 = lastTimestamp s"
    using loopGroupStep_keeps(1) [of cfg q kv s] step by simp
  have k2: "db_last_timestamp s = lastTimestamp s \<Longrightarrow> db_last_timestamp s1 = lastTimestamp s"
    using loopGroupStep_keeps(2) [of s cfg q kv] step by simp
  obtain e1 where k3: "events s1 = events s @ e1"
    using loopGroupStep_keeps(3) [of cfg q kv s] step by auto
  show ?case
  proof (cases b)
    case True
    then show ?thesis using step k1 k2 k3 by simp
  next
    case False
    obtain e2 where "events (fst (forEachGroup cfg q kvs s1)) = events s1 @ e2"
      using Cons.IH [of s1] by blast
    then show ?thesis using False step k1 k2 k3 Cons.IH [of s1] by simp
  qed
qed

lemma processGroupMessages_lastTimestamp:
  "lastTimestamp (snd (processGroupMessages cfg runAgent jid s)) = lastTimestamp s"
  by (simp add: processGroupMessages_def Let_def runGroup_cursor(5) split: option.splits)

text \<open>
  Claim C6. A pass of the message loop never decreases \<open>lastTimestamp\<close>, and
  \<open>processGroupMessages\<close> leaves it as it is. When the batch of new messages is not empty,
  the first effect of the pass is \<open>saveState\<close> with \<open>lastTimestamp\<close> at the maximum timestamp
  of the batch, before anything is done for any chat, and \<open>lastTimestamp\<close> and its copy in
  the store have that value at the end of the pass, also when a later step of the pass
  throws.
\<close>

theorem messageLoopTick_watermark:
  "lastTimestamp s \<le> lastTimestamp (fst (messageLoopTick cfg q s)) \<and>
   lastTimestamp (snd (processGroupMessages cfg runAgent jid s)) = lastTimestamp s \<and>
   (let got = getNewMessages (db_messages s) (\<lambda>j. registeredGroups s j \<noteq> None)
                (lastTimestamp s) (ASSISTANT_NAME cfg);
        s' = fst (messageLoopTick cfg q s)
    in fst got \<noteq> [] \<longrightarrow>
         snd got = Max (timestamp ` set (fst got)) \<and>
         lastTimestamp s' = snd got \<and>
         db_last_timestamp s' = snd got \<and>
         (\<exists>rest. events s' = events s @ SaveState (snd got) (lastAgentTimestamp s) # rest))"
proof -
  define got where "got = getNewMessages (db_messages s) (\<lambda>j. registeredGroups s j \<noteq> None)
                (lastTimestamp s) (ASSISTANT_NAME cfg)"
  define s1 where "s1 = saveState (s\<lparr>lastTimestamp := snd got\<rparr>)"
  define s' where "s' = fst (messageLoopTick cfg q s)"
  show ?thesis
  proof (cases "fst got = []")
    case True
    then have "messageLoopTick cfg q s = (s, False)"
      by (simp add: messageLoopTick_def Let_def got_def)
    with True show ?thesis by (simp add: got_def Let_def processGroupMessages_lastTimestamp)
  next
    case False
    have tick: "s' = fst (forEachGroup cfg q (groupByChat (fst got)) s1)"
      using False by (simp add: s'_def messageLoopTick_def Let_def got_def s1_def)
    have s1_lt: "lastTimestamp s1 = snd got" and s1_db: "db_last_timestamp s1 = lastTimestamp s1"
      and s1_ev: "events s1 = events s @ [SaveState (snd got) (lastAgentTimestamp s)]"
      by (simp_all add: s1_def)
    have lt: "lastTimestamp s' = snd got"
      using forEachGroup_keeps [of cfg q "groupByChat (fst got)" s1] tick s1_lt by simp
    have db: "db_last_timestamp s' = snd got"
      using forEachGroup_keeps [of cfg q "groupByChat (fst got)" s1] tick s1_lt s1_db by simp
    obtain ext where "events s' = events s1 @ ext"
      using forEachGroup_keeps [of cfg q "groupByChat (fst got)" s1] tick by auto
    then have ev: "\<exists>rest. events s' = events s @ SaveState (snd got) (lastAgentTimestamp s) # rest"
      using s1_ev by simp
    have mx: "snd got = Max (timestamp ` set (fst got))" and gt: "lastTimestamp s < snd got"
      using getNewMessages_newest [of "db_messages s" "\<lambda>j. registeredGroups s j \<noteq> None" "lastTimestamp s" "ASSISTANT_NAME cfg"]
        False by (simp_all add: got_def)
    have "lastTimestamp s \<le> lastTimestamp s'" using lt gt by simp
    then show ?thesis
      using False lt db ev mx processGroupMessages_lastTimestamp [of cfg runAgent jid s]
      unfolding got_def [symmetric] s'_def [symmetric] by (simp add: Let_def)
  qed
qed

theorem messageLoopTick_watermark_witness:
  "snd (messageLoopTick exampleConfig throwingQueue exampleState) \<and>
   lastTimestamp exampleState = ''2024-02-01T10:00:00Z'' \<and>
   lastTimestamp (fst (messageLoopTick exampleConfig throwingQueue exampleState)) = ''2024-02-01T10:02:00Z'' \<and>
   db_last_timestamp (fst (messageLoopTick exampleConfig throwingQueue exampleState)) = ''2024-02-01T10:02:00Z''"
proof -
  have got: "getNewMessages (db_messages exampleState) (\<lambda>j. registeredGroups exampleState j \<noteq> None)
                (lastTimestamp exampleState) (ASSISTANT_NAME exampleConfig)
             = (exampleMessages, ''2024-02-01T10:02:00Z'')"
    by (simp add: getNewMessages_def exampleState_def exampleConfig_def exampleMessages_def)
  have thrown: "snd (messageLoopTick exampleConfig throwingQueue exampleState)"
    unfolding messageLoopTick_def Let_def got
    by (simp add: Let_def exampleMessages_def groupByChat_def addToGroup_def
        loopGroupStep_def throwingQueue_def exampleState_def exampleGroup_def needsTrigger_def
        hasTrigger_def exampleConfig_def trim_def trimStart_def trimEnd_def isWhitespace_def
        getMessagesSince_def cursorOf_def)
  have lt: "lastTimestamp exampleState = ''2024-02-01T10:00:00Z''"
    by (simp add: exampleState_def)
  have ne: "exampleMessages \<noteq> []" by (simp add: exampleMessages_def)
  note T = messageLoopTick_watermark [of exampleState exampleConfig throwingQueue, THEN conjunct2,
      THEN conjunct2, unfolded Let_def got fst_conv snd_conv, rule_format, OF ne]
  have "lastTimestamp (fst (messageLoopTick exampleConfig throwingQueue exampleState)) = ''2024-02-01T10:02:00Z'' \<and>
   db_last_timestamp (fst (messageLoopTick exampleConfig throwingQueue exampleState)) = ''2024-02-01T10:02:00Z''"
    using T by blast
  with thrown lt show ?thesis by simp
qed

subsection \<open>The OpenCode runner\<close>

lemma resolve_fields [simp]:
  "signals (resolve out st) = signals st"
  "timerSet (resolve out st) = timerSet st"
  "stdout (resolve out st) = stdout st"
  "stderr (resolve out st) = stderr st"
  "killTimers (resolve out st) = killTimers st"
  "resolved (resolve out st) = (case resolved st of None \<Rightarrow> Some out | Some r \<Rightarrow> Some r)"
  by (simp_all add: resolve_def split: option.splits)

lemma scanLine_keeps [simp]:
  "resolved (scanLine js line st) = resolved st"
  "timerSet (scanLine js line st) = timerSet st"
  "signals (scanLine js line st) = signals st"
  "stdout (scanLine js line st) = stdout st"
  by (simp_all add: scanLine_def Let_def split: option.splits json.splits)

lemma fold_scanLine_keeps [simp]:
  "resolved (fold (scanLine js) ls st) = resolved st"
  "timerSet (fold (scanLine js) ls st) = timerSet st"
  "signals (fold (scanLine js) ls st) = signals st"
  "stdout (fold (scanLine js) ls st) = stdout st"
  by (induction ls arbitrary: st) simp_all

lemma onStdout_keeps [simp]:
  "resolved (onStdout js mx chunk st) = resolved st"
  "timerSet (onStdout js mx chunk st) = timerSet st"
  "signals (onStdout js mx chunk st) = signals st"
  by (simp_all add: onStdout_def Let_def)

lemma onStderr_keeps [simp]:
  "resolved (onStderr mx chunk st) = resolved st"
  "timerSet (onStderr mx chunk st) = timerSet st"
  "signals (onStderr mx chunk st) = signals st"
  by (simp_all add: onStderr_def Let_def)

lemma onKillTimer_keeps [simp]:
  "resolved (onKillTimer st) = resolved st"
  "timerSet (onKillTimer st) = timerSet st"
  by (simp_all add: onKillTimer_def)

lemma handle_resolved_stays:
  "resolved st = Some r \<Longrightarrow> resolved (handle js mx tmo e st) = Some r"
  by (cases e) (simp_all add: onTimeout_def onClose_def onError_def Let_def)

lemma fold_handle_resolved_stays:
  "resolved st = Some r \<Longrightarrow> resolved (fold (handle js mx tmo) evs st) = Some r"
  by (induction evs arbitrary: st) (simp_all add: handle_resolved_stays)

lemma handle_pending:
  "\<not> settles e \<Longrightarrow> resolved st = None \<and> timerSet st \<Longrightarrow>
   resolved (handle js mx tmo e st) = None \<and> timerSet (handle js mx tmo e st)"
  by (cases e) (simp_all add: settles_def)

lemma fold_handle_pending:
  "\<forall>e\<in>set pre. \<not> settles e \<Longrightarrow> resolved st = None \<and> timerSet st \<Longrightarrow>
   resolved (fold (handle js mx tmo) pre st) = None \<and> timerSet (fold (handle js mx tmo) pre st)"
proof (induction pre arbitrary: st)
  case Nil
  then show ?case by simp
next
  case (Cons e pre)
  have "resolved (handle js mx tmo e st) = None \<and> timerSet (handle js mx tmo e st)"
    using Cons.prems handle_pending [of e st js mx tmo] by simp
  with Cons show ?case by simp
qed

lemma handle_wellResolved:
  "wellResolved st \<Longrightarrow> wellResolved (handle js mx tmo e st)"
  by (cases e) (auto simp: wellResolved_def onTimeout_def onClose_def onError_def Let_def errorOutput_def
      split: option.splits)

lemma fold_handle_wellResolved:
  "wellResolved st \<Longrightarrow> wellResolved (fold (handle js mx tmo) evs st)"
  by (induction evs arbitrary: st) (simp_all add: handle_wellResolved)

lemma run_split:
  "runOpenCodeAgent js mx dflt g opts (pre @ e # post) =
     fold (handle js mx (timeoutMs dflt g opts)) post
       (handle js mx (timeoutMs dflt g opts) e (runOpenCodeAgent js mx dflt g opts pre))"
  by (simp add: runOpenCodeAgent_def)

lemma run_pending:
  "\<forall>e\<in>set pre. \<not> settles e \<Longrightarrow>
   resolved (runOpenCodeAgent js mx dflt g opts pre) = None \<and> timerSet (runOpenCodeAgent js mx dflt g opts pre)"
  unfolding runOpenCodeAgent_def
  by (rule fold_handle_pending) (simp_all add: spawned_def)

lemma handle_notSucceeded:
  "\<not> isClose e \<Longrightarrow> notSucceeded st \<Longrightarrow> notSucceeded (handle js mx tmo e st)"
  by (cases e) (auto simp: notSucceeded_def isClose_def onTimeout_def onError_def errorOutput_def
      split: option.splits)

lemma fold_handle_notSucceeded:
  "\<forall>e\<in>set pre. \<not> isClose e \<Longrightarrow> notSucceeded st \<Longrightarrow> notSucceeded (fold (handle js mx tmo) pre st)"
proof (induction pre arbitrary: st)
  case Nil
  then show ?case by simp
next
  case (Cons e pre)
  have "notSucceeded (handle js mx tmo e st)"
    using Cons.prems by (simp add: handle_notSucceeded)
  with Cons show ?case by simp
qed

lemma close_without_text:
  assumes "notSucceeded st"
    and "(code \<noteq> Some 0 \<and> code \<noteq> None) \<or> extractOpenCodeResponse js (stdout st) = []"
  shows "\<exists>out. resolved (handle js mx tmo (Close code) st) = Some out \<and> status out = Error"
  using assms
  by (auto simp: notSucceeded_def onClose_def Let_def errorOutput_def split: option.splits)

lemma run_close_error:
  assumes "\<forall>e\<in>set pre. \<not> isClose e"
    and "(code \<noteq> Some 0 \<and> code \<noteq> None) \<or>
         extractOpenCodeResponse js (stdout (runOpenCodeAgent js mx dflt g opts pre)) = []"
  shows "\<exists>out. resolved (runOpenCodeAgent js mx dflt g opts (pre @ Close code # post)) = Some out \<and>
           status out = Error"
proof -
  let ?st = "runOpenCodeAgent js mx dflt g opts pre"
  have "notSucceeded ?st"
    unfolding runOpenCodeAgent_def using assms(1)
    by (rule fold_handle_notSucceeded) (simp add: notSucceeded_def spawned_def)
  then obtain out where o: "resolved (handle js mx (timeoutMs dflt g opts) (Close code) ?st) = Some out"
    and e: "status out = Error"
    using close_without_text [OF _ assms(2)] by blast
  have "resolved (runOpenCodeAgent js mx dflt g opts (pre @ Close code # post)) = Some out"
    unfolding run_split using o by (rule fold_handle_resolved_stays)
  with e show ?thesis by blast
qed

text \<open>The facts about the example parser that the instances below start from.\<close>

lemma helloLine_trim: "trim helloLine = helloLine" "trimEnd helloLine = helloLine" "helloLine \<noteq> []"
    "dropTrailingCR helloLine = helloLine" 
    by (simp_all add: helloLine_def trim_def trimStart_def trimEnd_def isWhitespace_def dropTrailingCR_def)

lemma helloLine_split: "splitOn (CHR 0x0A) (helloLine @ [CHR 0x0A]) = [helloLine, []]"
    by (simp add: helloLine_def)

lemma empty_trim: "trim [] = []" "trimEnd [] = []" "dropTrailingCR [] = []"
  by (simp_all add: trim_def trimStart_def trimEnd_def dropTrailingCR_def)

lemma exampleJs_parse: "JSON_parse exampleJs helloLine = Some (JObj [(''type'', JStr ''text''), (''text'', JStr ''Hello'')])"
  "JSON_parse exampleJs [] = None"
  by (simp_all add: exampleJs_def helloLine_def)

lemma helloLine_length: "length helloLine = 30"
  by (simp add: helloLine_def)

lemma scanLine_hello: "scanLine exampleJs helloLine st = st"
  by (simp add: scanLine_def helloLine_trim exampleJs_parse Let_def)

lemma scanLine_empty: "scanLine exampleJs [] st = st"
  by (simp add: scanLine_def empty_trim)

lemma hello_stdout: "stdout (runOpenCodeAgent exampleJs 10485760 300000 exampleGroup None [StdoutData (helloLine @ [CHR 0x0A])]) = helloLine @ [CHR 0x0A]"
  by (simp add: runOpenCodeAgent_def spawned_def onStdout_def helloLine_split scanLine_hello scanLine_empty helloLine_length)

lemma hello_session: "capturedSessionId (runOpenCodeAgent exampleJs 10485760 300000 exampleGroup None [StdoutData (helloLine @ [CHR 0x0A])]) = None"
  by (simp add: runOpenCodeAgent_def spawned_def onStdout_def helloLine_split scanLine_hello scanLine_empty helloLine_length)

lemma extractStep_hello: "extractStep exampleJs (JObj [(''type'', JStr ''text''), (''text'', JStr ''Hello'')]) [] = ''Hello''"
  by (simp add: extractStep_def)

lemma extract_hello: "extractOpenCodeResponse exampleJs (helloLine @ [CHR 0x0A]) = ''Hello''"
  by (simp add: extractOpenCodeResponse_def helloLine_trim helloLine_split empty_trim extractStep_hello exampleJs_parse Let_def)

lemma extract_empty: "extractOpenCodeResponse exampleJs [] = []"
  by (simp add: extractOpenCodeResponse_def empty_trim Let_def)

lemma handle_signals_before:
  "\<not> settles e \<Longrightarrow> set (signals (handle js mx tmo e st)) \<subseteq> insert SIGTERM (set (signals st))"
  by (cases e) (auto simp: settles_def onKillTimer_def)

lemma fold_handle_signals_before:
  "\<forall>e\<in>set pre. \<not> settles e \<Longrightarrow>
   set (signals (fold (handle js mx tmo) pre st)) \<subseteq> insert SIGTERM (set (signals st))"
proof (induction pre arbitrary: st)
  case Nil
  then show ?case by auto
next
  case (Cons e pre)
  have "set (signals (fold (handle js mx tmo) pre (handle js mx tmo e st)))
      \<subseteq> insert SIGTERM (set (signals (handle js mx tmo e st)))"
    using Cons by simp
  moreover have "set (signals (handle js mx tmo e st)) \<subseteq> insert SIGTERM (set (signals st))"
    using Cons.prems by (simp add: handle_signals_before)
  ultimately show ?case by auto
qed

lemma fold_handle_signals_none:
  "\<forall>e\<in>set pre. \<not> settles e \<Longrightarrow> KillTimerFires \<notin> set pre \<Longrightarrow>
   signals (fold (handle js mx tmo) pre st) = signals st"
proof (induction pre arbitrary: st)
  case Nil
  then show ?case by simp
next
  case (Cons e pre)
  have "signals (handle js mx tmo e st) = signals st"
    using Cons.prems by (cases e) (simp_all add: settles_def)
  with Cons show ?case by simp
qed

text \<open>
  Claim C7. As stated the claim fails: when the timer fires, the runner sends
  \<open>SIGKILL\<close> at once and no graceful signal before it; \<open>SIGKILL\<close> is the only signal of
  the whole run.
\<close>

theorem timeout_sends_no_graceful_signal:
  "signals (runOpenCodeAgent exampleJs 10485760 300000 exampleGroup None [TimeoutFires]) = [SIGKILL] \<and>
   resolved (runOpenCodeAgent exampleJs 10485760 300000 exampleGroup None [TimeoutFires]) =
     Some \<lparr>status = Error, result = None, newSessionId = None,
           error = Some ''OpenCode timed out after 300000ms''\<rparr>"
  by (simp add: runOpenCodeAgent_def spawned_def onTimeout_def resolve_def timeoutMs_def
      exampleGroup_def showNat.simps errorOutput_def)

text \<open>
  Claim C7, amended. When the wall-clock timer fires before the \<open>close\<close> and \<open>error\<close> events,
  the timer's handler sends the child one signal, \<open>SIGKILL\<close>, and none before it; no
  \<open>SIGKILL\<close> has been sent earlier, and the only signal that the run can have sent earlier is
  the \<open>SIGTERM\<close> of the 100 ms timer that a final \<open>step_finish\<close> line sets, so that without
  such a timer \<open>SIGKILL\<close> is the first signal of the run. The run resolves to the output
  with status \<open>error\<close>, no result, and the error text \<open>OpenCode timed out after\<close>, the length
  of the timeout in milliseconds, \<open>ms\<close>, whatever happens afterwards. Without
  \<open>opts.timeoutMs\<close> the length is the workspace's \<open>containerConfig.timeout\<close> when it is set,
  else \<open>CONTAINER_TIMEOUT\<close>.
\<close>

theorem runOpenCodeAgent_timeout:
  assumes "evs = pre @ TimeoutFires # post" and "\<forall>e\<in>set pre. \<not> settles e"
  shows "resolved (runOpenCodeAgent js mx dflt g opts evs) =
           Some \<lparr>status = Error, result = None, newSessionId = None,
                 error = Some (''OpenCode timed out after '' @ showNat (timeoutMs dflt g opts) @ ''ms'')\<rparr> \<and>
         signals (runOpenCodeAgent js mx dflt g opts (pre @ [TimeoutFires])) =
           signals (runOpenCodeAgent js mx dflt g opts pre) @ [SIGKILL] \<and>
         set (signals (runOpenCodeAgent js mx dflt g opts pre)) \<subseteq> {SIGTERM} \<and>
         (KillTimerFires \<notin> set pre \<longrightarrow>
            signals (runOpenCodeAgent js mx dflt g opts (pre @ [TimeoutFires])) = [SIGKILL]) \<and>
         timeoutMs dflt g None =
           (case containerConfig g of
              None \<Rightarrow> dflt
            | Some c \<Rightarrow> (case timeout c of None \<Rightarrow> dflt | Some t \<Rightarrow> t)) \<and>
         (\<forall>t. timeoutMs dflt g (Some t) = t)"
proof -
  let ?st = "runOpenCodeAgent js mx dflt g opts pre"
  let ?tmo = "timeoutMs dflt g opts"
  let ?out = "\<lparr>status = Error, result = None, newSessionId = None,
                 error = Some (''OpenCode timed out after '' @ showNat ?tmo @ ''ms'')\<rparr>"
  have pend: "resolved ?st = None \<and> timerSet ?st"
    using assms(2) by (rule run_pending)
  have fired: "resolved (handle js mx ?tmo TimeoutFires ?st) = Some ?out"
    using pend by (simp add: onTimeout_def errorOutput_def)
  have one: "resolved (runOpenCodeAgent js mx dflt g opts evs) = Some ?out"
    unfolding assms(1) run_split using fired by (rule fold_handle_resolved_stays)
  have two: "signals (runOpenCodeAgent js mx dflt g opts (pre @ [TimeoutFires])) = signals ?st @ [SIGKILL]"
    using pend run_split [of js mx dflt g opts pre TimeoutFires "[]"] by (simp add: onTimeout_def)
  have three: "set (signals ?st) \<subseteq> {SIGTERM}"
    using fold_handle_signals_before [OF assms(2), of js mx ?tmo spawned]
    by (simp add: runOpenCodeAgent_def spawned_def)
  have four: "KillTimerFires \<notin> set pre \<longrightarrow>
            signals (runOpenCodeAgent js mx dflt g opts (pre @ [TimeoutFires])) = [SIGKILL]"
  proof
    assume "KillTimerFires \<notin> set pre"
    then have "signals ?st = []"
      using fold_handle_signals_none [OF assms(2), of js mx ?tmo spawned]
      by (simp add: runOpenCodeAgent_def spawned_def)
    with two show "signals (runOpenCodeAgent js mx dflt g opts (pre @ [TimeoutFires])) = [SIGKILL]"
      by simp
  qed
  have five: "timeoutMs dflt g None =
           (case containerConfig g of
              None \<Rightarrow> dflt
            | Some c \<Rightarrow> (case timeout c of None \<Rightarrow> dflt | Some t \<Rightarrow> t))"
    by (simp add: timeoutMs_def split: option.splits)
  have six: "\<forall>t. timeoutMs dflt g (Some t) = t"
    by (simp add: timeoutMs_def)
  from one two three four five six show ?thesis by (intro conjI)
qed

theorem runOpenCodeAgent_timeout_witness:
  "resolved (runOpenCodeAgent exampleJs 10485760 300000 exampleGroup None
       [StdoutData ''thinking'', TimeoutFires, Close None]) =
     Some \<lparr>status = Error, result = None, newSessionId = None,
           error = Some ''OpenCode timed out after 300000ms''\<rparr> \<and>
   signals (runOpenCodeAgent exampleJs 10485760 300000 exampleGroup None
       [StdoutData ''thinking'', TimeoutFires]) = [SIGKILL]"
proof -
  have e: "[StdoutData ''thinking'', TimeoutFires, Close None] = [StdoutData ''thinking''] @ TimeoutFires # [Close None]"
    by simp
  have p: "\<forall>e\<in>set [StdoutData ''thinking'']. \<not> settles e"
    by (simp add: settles_def)
  have k: "KillTimerFires \<notin> set [StdoutData ''thinking'']"
    by simp
  have n: "showNat (timeoutMs 300000 exampleGroup None) = ''300000''"
    by (simp add: timeoutMs_def exampleGroup_def showNat.simps)
  note T = runOpenCodeAgent_timeout [OF e p, of exampleJs 10485760 300000 exampleGroup None]
  have one: "resolved (runOpenCodeAgent exampleJs 10485760 300000 exampleGroup None
       [StdoutData ''thinking'', TimeoutFires, Close None]) =
     Some \<lparr>status = Error, result = None, newSessionId = None,
           error = Some ''OpenCode timed out after 300000ms''\<rparr>"
    using T [THEN conjunct1] by (simp add: n)
  have two: "signals (runOpenCodeAgent exampleJs 10485760 300000 exampleGroup None
       [StdoutData ''thinking'', TimeoutFires]) = [SIGKILL]"
    using T [THEN conjunct2, THEN conjunct2, THEN conjunct2, THEN conjunct1, rule_format, OF k]
    by simp
  from one two show ?thesis by (rule conjI)
qed

text \<open>
  Claim C10. As stated the claim fails: a child that the runner killed on the timeout
  closes with the exit code \<open>null\<close> and nothing to extract from its stdout, and the output
  of the run is the timeout error, not the error that reports empty output.
\<close>

theorem close_after_timeout_reports_timeout:
  "signals (runOpenCodeAgent exampleJs 10485760 300000 exampleGroup None [TimeoutFires, Close None])
     = [SIGKILL] \<and>
   extractOpenCodeResponse exampleJs
     (stdout (runOpenCodeAgent exampleJs 10485760 300000 exampleGroup None [TimeoutFires, Close None])) = [] \<and>
   resolved (runOpenCodeAgent exampleJs 10485760 300000 exampleGroup None [TimeoutFires, Close None]) =
     Some \<lparr>status = Error, result = None, newSessionId = None,
           error = Some ''OpenCode timed out after 300000ms''\<rparr> \<and>
   resolved (runOpenCodeAgent exampleJs 10485760 300000 exampleGroup None [TimeoutFires, Close None]) \<noteq>
     Some \<lparr>status = Error, result = None, newSessionId = None,
           error = Some ''OpenCode returned empty output. Stderr: ''\<rparr>"
  by (simp add: runOpenCodeAgent_def spawned_def onTimeout_def onClose_def resolve_def timeoutMs_def
      exampleGroup_def showNat.simps errorOutput_def extract_empty Let_def)

text \<open>
  Claim C10, amended. An output of \<open>runOpenCodeAgent\<close> with status \<open>success\<close> carries a
  result that is not empty. When the child closes with an exit code other than 0 and
  \<open>null\<close>, or with 0 or \<open>null\<close> and no text extracted from stdout, the output has status
  \<open>error\<close>. The output is that of the first event that settles the run. When that is the
  \<open>close\<close> event, the output is: for an exit code other than 0 and \<open>null\<close>, the error that
  reports the code and the ends of stdout and stderr; for 0 or \<open>null\<close> with no text
  extracted, the error \<open>OpenCode returned empty output\<close> with the end of stderr; and
  otherwise the success with the extracted text and the captured session id. When the
  timeout fires first, the output is the timeout error, and when the spawn fails first, the
  spawn error, whatever a later \<open>close\<close> event reports.
\<close>

theorem runOpenCodeAgent_success_has_text:
  "(\<forall>out. resolved (runOpenCodeAgent js mx dflt g opts evs) = Some out \<and> status out = Success \<longrightarrow>
       (\<exists>t. result out = Some t \<and> t \<noteq> [])) \<and>
   (\<forall>pre code post.
       evs = pre @ Close code # post \<and> (\<forall>e\<in>set pre. \<not> isClose e) \<and>
       ((code \<noteq> Some 0 \<and> code \<noteq> None) \<or>
        extractOpenCodeResponse js (stdout (runOpenCodeAgent js mx dflt g opts pre)) = []) \<longrightarrow>
       (\<exists>out. resolved (runOpenCodeAgent js mx dflt g opts evs) = Some out \<and> status out = Error)) \<and>
   (\<forall>pre code post. evs = pre @ Close code # post \<and> (\<forall>e\<in>set pre. \<not> settles e) \<longrightarrow>
       resolved (runOpenCodeAgent js mx dflt g opts evs) =
         Some (let st = runOpenCodeAgent js mx dflt g opts pre
               in if code \<noteq> Some 0 \<and> code \<noteq> None
                  then \<lparr>status = Error, result = None, newSessionId = None,
                        error = Some (''OpenCode exited with code '' @ showInt (the code)
                          @ ''. Stdout: '' @ sliceLast 500 (trim (stdout st))
                          @ ''. Stderr: '' @ sliceLast 500 (trim (stderr st)))\<rparr>
                  else if extractOpenCodeResponse js (stdout st) = []
                  then \<lparr>status = Error, result = None, newSessionId = None,
                        error = Some (''OpenCode returned empty output. Stderr: ''
                          @ sliceLast 500 (trim (stderr st)))\<rparr>
                  else \<lparr>status = Success, result = Some (extractOpenCodeResponse js (stdout st)),
                        newSessionId = capturedSessionId st, error = None\<rparr>)) \<and>
   (\<forall>pre post. evs = pre @ TimeoutFires # post \<and> (\<forall>e\<in>set pre. \<not> settles e) \<longrightarrow>
       resolved (runOpenCodeAgent js mx dflt g opts evs) =
         Some \<lparr>status = Error, result = None, newSessionId = None,
               error = Some (''OpenCode timed out after '' @ showNat (timeoutMs dflt g opts) @ ''ms'')\<rparr>) \<and>
   (\<forall>pre msg post. evs = pre @ SpawnError msg # post \<and> (\<forall>e\<in>set pre. \<not> settles e) \<longrightarrow>
       resolved (runOpenCodeAgent js mx dflt g opts evs) =
         Some \<lparr>status = Error, result = None, newSessionId = None,
               error = Some (''Failed to spawn opencode: '' @ msg)\<rparr>)"
proof (intro conjI allI impI)
  fix out
  assume a: "resolved (runOpenCodeAgent js mx dflt g opts evs) = Some out \<and> status out = Success"
  have "wellResolved (runOpenCodeAgent js mx dflt g opts evs)"
    unfolding runOpenCodeAgent_def
    by (rule fold_handle_wellResolved) (simp add: wellResolved_def spawned_def)
  with a have "truthy (result out)"
    by (auto simp: wellResolved_def)
  then show "\<exists>t. result out = Some t \<and> t \<noteq> []"
    by (cases "result out") simp_all
next
  fix pre code post
  assume a: "evs = pre @ Close code # post \<and> (\<forall>e\<in>set pre. \<not> isClose e) \<and>
       ((code \<noteq> Some 0 \<and> code \<noteq> None) \<or>
        extractOpenCodeResponse js (stdout (runOpenCodeAgent js mx dflt g opts pre)) = [])"
  then have "\<exists>out. resolved (runOpenCodeAgent js mx dflt g opts (pre @ Close code # post)) = Some out \<and>
      status out = Error"
    by (intro run_close_error) simp_all
  with a show "\<exists>out. resolved (runOpenCodeAgent js mx dflt g opts evs) = Some out \<and> status out = Error"
    by simp
next
  fix pre code post
  assume a: "evs = pre @ Close code # post \<and> (\<forall>e\<in>set pre. \<not> settles e)"
  let ?st = "runOpenCodeAgent js mx dflt g opts pre"
  let ?tmo = "timeoutMs dflt g opts"
  let ?out = "(let st = ?st
               in if code \<noteq> Some 0 \<and> code \<noteq> None
                  then \<lparr>status = Error, result = None, newSessionId = None,
                        error = Some (''OpenCode exited with code '' @ showInt (the code)
                          @ ''. Stdout: '' @ sliceLast 500 (trim (stdout st))
                          @ ''. Stderr: '' @ sliceLast 500 (trim (stderr st)))\<rparr>
                  else if extractOpenCodeResponse js (stdout st) = []
                  then \<lparr>status = Error, result = None, newSessionId = None,
                        error = Some (''OpenCode returned empty output. Stderr: ''
                          @ sliceLast 500 (trim (stderr st)))\<rparr>
                  else \<lparr>status = Success, result = Some (extractOpenCodeResponse js (stdout st)),
                        newSessionId = capturedSessionId st, error = None\<rparr>)"
  have pend: "resolved ?st = None \<and> timerSet ?st"
    using a run_pending by blast
  have closed: "resolved (handle js mx ?tmo (Close code) ?st) = Some ?out"
    using pend by (simp add: onClose_def Let_def errorOutput_def)
  show "resolved (runOpenCodeAgent js mx dflt g opts evs) = Some ?out"
    using a run_split [of js mx dflt g opts pre "Close code" post]
      fold_handle_resolved_stays [OF closed] by simp
next
  fix pre post
  assume a: "evs = pre @ TimeoutFires # post \<and> (\<forall>e\<in>set pre. \<not> settles e)"
  let ?st = "runOpenCodeAgent js mx dflt g opts pre"
  let ?tmo = "timeoutMs dflt g opts"
  let ?out = "\<lparr>status = Error, result = None, newSessionId = None,
               error = Some (''OpenCode timed out after '' @ showNat ?tmo @ ''ms'')\<rparr>"
  have pend: "resolved ?st = None \<and> timerSet ?st"
    using a run_pending by blast
  have fired: "resolved (handle js mx ?tmo TimeoutFires ?st) = Some ?out"
    using pend by (simp add: onTimeout_def errorOutput_def)
  show "resolved (runOpenCodeAgent js mx dflt g opts evs) = Some ?out"
    using a run_split [of js mx dflt g opts pre TimeoutFires post]
      fold_handle_resolved_stays [OF fired] by simp
next
  fix pre msg post
  assume a: "evs = pre @ SpawnError msg # post \<and> (\<forall>e\<in>set pre. \<not> settles e)"
  let ?st = "runOpenCodeAgent js mx dflt g opts pre"
  let ?tmo = "timeoutMs dflt g opts"
  let ?out = "\<lparr>status = Error, result = None, newSessionId = None,
               error = Some (''Failed to spawn opencode: '' @ msg)\<rparr>"
  have pend: "resolved ?st = None \<and> timerSet ?st"
    using a run_pending by blast
  have failed: "resolved (handle js mx ?tmo (SpawnError msg) ?st) = Some ?out"
    using pend by (simp add: onError_def errorOutput_def)
  show "resolved (runOpenCodeAgent js mx dflt g opts evs) = Some ?out"
    using a run_split [of js mx dflt g opts pre "SpawnError msg" post]
      fold_handle_resolved_stays [OF failed] by simp
qed

theorem runOpenCodeAgent_success_has_text_witness:
  "resolved (runOpenCodeAgent exampleJs 10485760 300000 exampleGroup None
       [StdoutData (helloLine @ [CHR 0x0A]), Close (Some 0)]) =
     Some \<lparr>status = Success, result = Some ''Hello'', newSessionId = None, error = None\<rparr> \<and>
   resolved (runOpenCodeAgent exampleJs 10485760 300000 exampleGroup None [Close None]) =
     Some \<lparr>status = Error, result = None, newSessionId = None,
           error = Some ''OpenCode returned empty output. Stderr: ''\<rparr> \<and>
   resolved (runOpenCodeAgent exampleJs 10485760 300000 exampleGroup None [Close (Some 1)]) =
     Some \<lparr>status = Error, result = None, newSessionId = None,
           error = Some ''OpenCode exited with code 1. Stdout: . Stderr: ''\<rparr> \<and>
   resolved (runOpenCodeAgent exampleJs 10485760 300000 exampleGroup None [SpawnError ''spawn opencode ENOENT'', Close None]) =
     Some \<lparr>status = Error, result = None, newSessionId = None,
           error = Some ''Failed to spawn opencode: spawn opencode ENOENT''\<rparr> \<and>
   (\<exists>out. resolved (runOpenCodeAgent exampleJs 10485760 300000 exampleGroup None
               [TimeoutFires, Close None]) = Some out \<and> status out = Error) \<and>
   resolved (runOpenCodeAgent exampleJs 10485760 300000 exampleGroup None [TimeoutFires, Close None]) =
     Some \<lparr>status = Error, result = None, newSessionId = None,
           error = Some ''OpenCode timed out after 300000ms''\<rparr>"
proof -
  let ?pre = "[StdoutData (helloLine @ [CHR 0x0A])]"
  have st2: "stdout (runOpenCodeAgent exampleJs 10485760 300000 exampleGroup None []) = []"
    "stderr (runOpenCodeAgent exampleJs 10485760 300000 exampleGroup None []) = []"
    by (simp_all add: runOpenCodeAgent_def spawned_def)
  have st3: "stdout (runOpenCodeAgent exampleJs 10485760 300000 exampleGroup None [TimeoutFires]) = []"
    by (simp add: runOpenCodeAgent_def spawned_def onTimeout_def)
  note T1 = runOpenCodeAgent_success_has_text [of exampleJs 10485760 300000 exampleGroup None
      "[StdoutData (helloLine @ [CHR 0x0A]), Close (Some 0)]", THEN conjunct2, THEN conjunct2,
      THEN conjunct1, rule_format, of ?pre "Some 0" "[]"]
  note T2 = runOpenCodeAgent_success_has_text [of exampleJs 10485760 300000 exampleGroup None
      "[Close None]", THEN conjunct2, THEN conjunct2, THEN conjunct1, rule_format, of "[]" None "[]"]
  note T2b = runOpenCodeAgent_success_has_text [of exampleJs 10485760 300000 exampleGroup None
      "[Close (Some 1)]", THEN conjunct2, THEN conjunct2, THEN conjunct1, rule_format, of "[]" "Some 1" "[]"]
  note T3 = runOpenCodeAgent_success_has_text [of exampleJs 10485760 300000 exampleGroup None
      "[TimeoutFires, Close None]", THEN conjunct2, THEN conjunct1, rule_format,
      of "[TimeoutFires]" None "[]"]
  note T4 = runOpenCodeAgent_success_has_text [of exampleJs 10485760 300000 exampleGroup None
      "[SpawnError ''spawn opencode ENOENT'', Close None]", THEN conjunct2, THEN conjunct2,
      THEN conjunct2, THEN conjunct2, rule_format, of "[]" "''spawn opencode ENOENT''" "[Close None]"]
  note T5 = runOpenCodeAgent_success_has_text [of exampleJs 10485760 300000 exampleGroup None
      "[TimeoutFires, Close None]", THEN conjunct2, THEN conjunct2, THEN conjunct2, THEN conjunct1,
      rule_format, of "[]" "[Close None]"]
  have n: "showNat (timeoutMs 300000 exampleGroup None) = ''300000''"
    by (simp add: timeoutMs_def exampleGroup_def showNat.simps)
  have c: "\<exists>out. resolved (runOpenCodeAgent exampleJs 10485760 300000 exampleGroup None
               [TimeoutFires, Close None]) = Some out \<and> status out = Error"
    using T3 by (simp add: isClose_def st3 extract_empty)
  have c2: "resolved (runOpenCodeAgent exampleJs 10485760 300000 exampleGroup None [TimeoutFires, Close None]) =
     Some \<lparr>status = Error, result = None, newSessionId = None,
           error = Some ''OpenCode timed out after 300000ms''\<rparr>"
    using T5 by (simp add: n)
  have a: "resolved (runOpenCodeAgent exampleJs 10485760 300000 exampleGroup None
       [StdoutData (helloLine @ [CHR 0x0A]), Close (Some 0)]) =
     Some \<lparr>status = Success, result = Some ''Hello'', newSessionId = None, error = None\<rparr>"
    using T1 by (simp add: settles_def Let_def hello_stdout hello_session extract_hello)
  have b: "resolved (runOpenCodeAgent exampleJs 10485760 300000 exampleGroup None [Close None]) =
     Some \<lparr>status = Error, result = None, newSessionId = None,
           error = Some ''OpenCode returned empty output. Stderr: ''\<rparr>"
    using T2 by (simp add: Let_def st2 extract_empty sliceLast_def empty_trim)
  have b2: "resolved (runOpenCodeAgent exampleJs 10485760 300000 exampleGroup None [Close (Some 1)]) =
     Some \<lparr>status = Error, result = None, newSessionId = None,
           error = Some ''OpenCode exited with code 1. Stdout: . Stderr: ''\<rparr>"
    using T2b by (simp add: Let_def st2 sliceLast_def empty_trim showInt_def showNat.simps)
  have d: "resolved (runOpenCodeAgent exampleJs 10485760 300000 exampleGroup None [SpawnError ''spawn opencode ENOENT'', Close None]) =
     Some \<lparr>status = Error, result = None, newSessionId = None,
           error = Some ''Failed to spawn opencode: spawn opencode ENOENT''\<rparr>"
    using T4 by simp
  from a b b2 d c c2 show ?thesis by (intro conjI)
qed

subsection \<open>The Vibe runner\<close>

text \<open>
  Claim C2. The Vibe runner does not keep the claim. For the workspace \<open>mountingGroup\<close>,
  which is not the main one, both additional mounts reach the \<open>vibe\<close> command as requested,
  read-write: the SSH directory, which the allowlist blocks and no allowed root covers, and
  the project directory, for which the allowlist demands read-only.
\<close>

theorem runVibeAgent_passes_unchecked_mounts:
  "folder mountingGroup \<noteq> MAIN_GROUP_FOLDER exampleConfig \<and>
   runVibeAgentArgs 2 2048 ''/groups/family-chat'' ''/data/ipc/family-chat''
       ''/data/sessions/family-chat/.claude'' True ''/tmp/agent.sh'' ''/data/vibe-images/family-chat.raw''
       mountingGroup =
     [''--cpus'', ''2'', ''--ram'', ''2048'',
      ''--mount'', ''/groups/family-chat:/workspace:read-write'',
      ''--mount'', ''/data/ipc/family-chat:/ipc:read-write'',
      ''--mount'', ''/data/sessions/family-chat/.claude:/home/user/.claude:read-write'',
      ''--mount'', ''/home/u/.ssh:ssh:read-write'',
      ''--mount'', ''/home/u/projects/app:app:read-write'',
      ''--script'', ''/tmp/agent.sh'', ''/data/vibe-images/family-chat.raw''] \<and>
   \<not> compliesWithPolicy exampleAllowlist False
       \<lparr>mount_hostPath = ''/home/u/.ssh'', mount_guestPath = ''ssh'', mount_readonly = False\<rparr> \<and>
   \<not> compliesWithPolicy exampleAllowlist False
       \<lparr>mount_hostPath = ''/home/u/projects/app'', mount_guestPath = ''app'', mount_readonly = False\<rparr> \<and>
   compliesWithPolicy exampleAllowlist False
       \<lparr>mount_hostPath = ''/home/u/projects/app'', mount_guestPath = ''app'', mount_readonly = True\<rparr>"
  by (simp add: runVibeAgentArgs_def executeVibeArgs_def vibeMounts_def mountArg_def orDefault_def
      mountingGroup_def exampleGroup_def exampleConfig_def sshMount_def projectMount_def
      compliesWithPolicy_def pathComponents_def exampleAllowlist_def showNat.simps Let_def)

subsection \<open>The Tart runner\<close>

text \<open>
  Claim C9. The Tart runner does not keep the claim. On a host where the clone is made and
  the VM never comes up, \<open>tart stop\<close> fails, \<open>tart delete\<close> is not run, and the clone is
  left on the host after the run has returned its error output.
\<close>

theorem runTartAgent_leaves_clone:
  "fst (runTartAgent ''tart_nanoclaw_base'' stuckHost ''claude'' exampleGroup 1706781720000) =
     [TartList,
      TartClone ''tart_nanoclaw_base'' ''nanoclaw-family-chat-1706781720000'',
      TartRun ''nanoclaw-family-chat-1706781720000'',
      TartIp ''nanoclaw-family-chat-1706781720000'',
      TartStop ''nanoclaw-family-chat-1706781720000''] \<and>
   status (snd (runTartAgent ''tart_nanoclaw_base'' stuckHost ''claude'' exampleGroup 1706781720000)) = Error \<and>
   cloneLeft stuckHost ''nanoclaw-family-chat-1706781720000''
     (fst (runTartAgent ''tart_nanoclaw_base'' stuckHost ''claude'' exampleGroup 1706781720000))"
proof -
  have vm: "vmNameOf exampleGroup 1706781720000 = ''nanoclaw-family-chat-1706781720000''"
    by (simp add: vmNameOf_def exampleGroup_def showNat.simps)
  show ?thesis
    by (simp add: runTartAgent_def Let_def vm tartTry_def tartSetup_def thenStep_def tartFinally_def
        stuckHost_def cloneLeft_def errorOutput_def)
qed

end
